theory Spec2Isabelle
  imports Main
begin

section \<open>Data model: the relational schema\<close>

text \<open>
  The tables of the schema (the DDL embedded in \<^verbatim>\<open>database/seed.ts\<close>) as lists of rows;
  a list holds the rows in the order of insertion. The store does not promise that
  order to a query: where a handler reads \<^verbatim>\<open>rows[0]\<close> of a query without \<^verbatim>\<open>ORDER BY\<close>
  that can match more than one row, the order of the result is the store's choice
  (\<open>store_order\<close> below). Identifiers are UUIDs in canonical text form. A column that
  may hold NULL is an \<open>option\<close>; the columns that no writer of the repository ever leaves NULL (\<^verbatim>\<open>is_enabled\<close>, \<^verbatim>\<open>is_active\<close>,
  \<^verbatim>\<open>is_mentor\<close>, \<^verbatim>\<open>mentees_count\<close>, \<^verbatim>\<open>years_experience\<close>, the foreign keys of the
  relationship tables) are plain values. Columns that the modelled handlers only copy
  through (timestamps, profile fields, logos and colours) are left out.
\<close>

type_synonym uuid = string

datatype role = alumni | admin | superadmin

datatype req_status = pending | accepted | rejected

record university =
  uni_id :: string
  uni_name :: string
  is_enabled :: bool

record user =
  user_id :: uuid
  email :: string
  password_hash :: string
  name :: string
  avatar :: "string option"
  university_id :: "string option"
  user_role :: role
  is_mentor :: bool
  is_active :: bool

record connection =
  conn_id :: uuid
  conn_user_id :: uuid
  connected_user_id :: uuid

record connection_request =
  cr_id :: uuid
  from_user_id :: uuid
  to_user_id :: uuid
  cr_status :: req_status

record mentor =
  mentor_id :: uuid
  mentor_user_id :: uuid
  title :: "string option"
  bio :: "string option"
  expertise :: "string list"
  availability :: "string option"
  years_experience :: int
  mentees_count :: int
  mentor_is_active :: bool

record mentorship_request =
  mr_id :: uuid
  mr_mentor_id :: uuid
  mentee_id :: uuid
  mr_message :: "string option"
  mr_status :: req_status

record notification =
  n_user_id :: uuid
  n_type :: string
  n_title :: string
  n_message :: string
  n_avatar :: "string option"
  n_action_url :: "string option"
  n_related_id :: "uuid option"
  is_read :: bool

record database =
  universities :: "university list"
  users :: "user list"
  connections :: "connection list"
  connection_requests :: "connection_request list"
  mentors :: "mentor list"
  mentorship_requests :: "mentorship_request list"
  notifications :: "notification list"

definition empty_database :: database where
  "empty_database = \<lparr>universities = [], users = [], connections = [],
     connection_requests = [], mentors = [], mentorship_requests = [], notifications = []\<rparr>"

section \<open>Storage layer: statements and their failures\<close>

text \<open>
  A statement either runs or raises. \<open>Query_failed\<close> is a failure of the storage client
  itself (lost connection, timeout); the others are the constraint violations that the
  DDL declares.
\<close>

datatype pg_error =
    Unique_violation
  | Foreign_key_violation
  | Numeric_value_out_of_range
  | Cardinality_violation
  | Invalid_row_count
  | Query_failed

text \<open>What a handler's \<^verbatim>\<open>catch\<close> block sees: an \<^verbatim>\<open>Error\<close> thrown by the handler, or a
  driver error.\<close>

datatype exn = Error string | PgError pg_error

datatype detail = Detail string | DriverMessage pg_error

text \<open>A response: the 200 payload, or a status code with its \<^verbatim>\<open>detail\<close>.\<close>

datatype 'a reply = Success 'a | Failure nat detail


text \<open>\<^verbatim>\<open>INSERT INTO connections\<close>: primary key \<open>id\<close>,
  \<^verbatim>\<open>UNIQUE(user_id, connected_user_id)\<close>, both columns reference \<^verbatim>\<open>users(id)\<close>.\<close>

definition insert_connection :: "database \<Rightarrow> connection \<Rightarrow> pg_error + database" where
  "insert_connection d c =
     (if list_ex (\<lambda>x. conn_id x = conn_id c) (connections d) then Inl Unique_violation
      else if list_ex (\<lambda>x. conn_user_id x = conn_user_id c \<and>
                            connected_user_id x = connected_user_id c) (connections d)
        then Inl Unique_violation
      else if \<not> list_ex (\<lambda>x. user_id x = conn_user_id c) (users d)
            \<or> \<not> list_ex (\<lambda>x. user_id x = connected_user_id c) (users d)
        then Inl Foreign_key_violation
      else Inr (d\<lparr>connections := connections d @ [c]\<rparr>))"

text \<open>\<^verbatim>\<open>INSERT INTO connection_requests\<close>: primary key \<open>id\<close>,
  \<^verbatim>\<open>UNIQUE(from_user_id, to_user_id)\<close>, both columns reference \<^verbatim>\<open>users(id)\<close>.\<close>

definition insert_connection_request ::
  "database \<Rightarrow> connection_request \<Rightarrow> pg_error + database" where
  "insert_connection_request d r =
     (if list_ex (\<lambda>x. cr_id x = cr_id r) (connection_requests d) then Inl Unique_violation
      else if list_ex (\<lambda>x. from_user_id x = from_user_id r \<and> to_user_id x = to_user_id r)
                (connection_requests d)
        then Inl Unique_violation
      else if \<not> list_ex (\<lambda>x. user_id x = from_user_id r) (users d)
            \<or> \<not> list_ex (\<lambda>x. user_id x = to_user_id r) (users d)
        then Inl Foreign_key_violation
      else Inr (d\<lparr>connection_requests := connection_requests d @ [r]\<rparr>))"



text \<open>\<^verbatim>\<open>INSERT INTO notifications ... SELECT ... FROM users WHERE id = ...\<close> inserts the
  selected rows in one statement; \<open>user_id\<close> references \<^verbatim>\<open>users(id)\<close>, the primary key
  is generated by the store.\<close>

definition insert_notifications :: "database \<Rightarrow> notification list \<Rightarrow> pg_error + database" where
  "insert_notifications d ns =
     (if list_ex (\<lambda>n. \<not> list_ex (\<lambda>x. user_id x = n_user_id n) (users d)) ns
        then Inl Foreign_key_violation
      else Inr (d\<lparr>notifications := notifications d @ ns\<rparr>))"

text \<open>\<^verbatim>\<open>transaction(callback)\<close> of \<^verbatim>\<open>database/connection.ts\<close>: BEGIN, the callback,
  COMMIT; when the callback throws, ROLLBACK and rethrow.\<close>

definition transaction ::
  "database \<Rightarrow> (database \<Rightarrow> exn + ('a \<times> database)) \<Rightarrow> (exn + 'a) \<times> database" where
  "transaction d callback =
     (case callback d of
        Inl e \<Rightarrow> (Inl e, d)
      | Inr (x, d') \<Rightarrow> (Inr x, d'))"

text \<open>\<^verbatim>\<open>error.message || fallback\<close> in the \<^verbatim>\<open>catch\<close> block of the transactional handlers.\<close>

definition error_detail :: "exn \<Rightarrow> string \<Rightarrow> detail" where
  "error_detail e fallback =
     (case e of
        Error m \<Rightarrow> (if m = [] then Detail fallback else Detail m)
      | PgError p \<Rightarrow> DriverMessage p)"

section \<open>Identity: the \<^verbatim>\<open>authenticate\<close> middleware\<close>

text \<open>After the token is verified, \<^verbatim>\<open>authenticate\<close> loads
  \<^verbatim>\<open>SELECT * FROM users WHERE id = $1 AND is_active = true\<close> and attaches the first row as
  \<^verbatim>\<open>req.user\<close>; with no row the request is answered 401.\<close>

definition authenticate :: "database \<Rightarrow> uuid \<Rightarrow> user option" where
  "authenticate d uid =
     (case filter (\<lambda>u. user_id u = uid \<and> is_active u) (users d) of
        [] \<Rightarrow> None
      | u # _ \<Rightarrow> Some u)"

section \<open>Relationship engine (\<^verbatim>\<open>routes/connections\<close>)\<close>

text \<open>In every handler \<open>fails k\<close> tells whether the \<open>k\<close>-th statement that the handler sends
  to the store raises \<open>Query_failed\<close>; \<open>no_faults\<close> is a store that never does.\<close>

definition no_faults :: "nat \<Rightarrow> bool" where
  "no_faults k = False"

text \<open>\<^verbatim>\<open>SELECT id FROM connections WHERE (user_id = $1 AND connected_user_id = $2)
  OR (user_id = $2 AND connected_user_id = $1)\<close>\<close>

definition existing_connection :: "database \<Rightarrow> uuid \<Rightarrow> uuid \<Rightarrow> connection list" where
  "existing_connection d a b =
     filter (\<lambda>c. (conn_user_id c = a \<and> connected_user_id c = b)
               \<or> (conn_user_id c = b \<and> connected_user_id c = a)) (connections d)"

text \<open>\<^verbatim>\<open>SELECT id, status FROM connection_requests WHERE (from_user_id = $1 AND
  to_user_id = $2) OR (from_user_id = $2 AND to_user_id = $1)\<close>\<close>

definition existing_request :: "database \<Rightarrow> uuid \<Rightarrow> uuid \<Rightarrow> connection_request list" where
  "existing_request d a b =
     filter (\<lambda>r. (from_user_id r = a \<and> to_user_id r = b)
               \<or> (from_user_id r = b \<and> to_user_id r = a)) (connection_requests d)"

definition connection_request_notification :: "uuid \<Rightarrow> user \<Rightarrow> uuid \<Rightarrow> user \<Rightarrow> notification" where
  "connection_request_notification to_user actor requestId u =
     \<lparr>n_user_id = to_user, n_type = ''connection_request'',
      n_title = ''New Connection Request'',
      n_message = name actor @ '' wants to connect with you'',
      n_avatar = avatar u, n_action_url = Some ''/connections'',
      n_related_id = Some requestId, is_read = False\<rparr>"

text \<open>\<^verbatim>\<open>POST /connections/request\<close>. \<open>actor\<close> is \<^verbatim>\<open>req.user\<close>, \<open>requestId\<close> the value of
  \<^verbatim>\<open>uuidv4()\<close>, \<open>target\<close> the body field \<^verbatim>\<open>to_user_id\<close> (\<open>None\<close> when absent). Every
  statement goes through \<^verbatim>\<open>query\<close>, each in its own implicit transaction.\<close>

definition sendRequest ::
  "(nat \<Rightarrow> bool) \<Rightarrow> database \<Rightarrow> user \<Rightarrow> uuid \<Rightarrow> uuid option \<Rightarrow> string reply \<times> database" where
  "sendRequest fails d actor requestId target =
     (case target of
        None \<Rightarrow> (Failure 400 (Detail ''Target user ID is required''), d)
      | Some t \<Rightarrow>
          if t = [] then (Failure 400 (Detail ''Target user ID is required''), d)
          else if t = user_id actor then (Failure 400 (Detail ''Cannot connect to yourself''), d)
          else if fails 0 then (Failure 500 (Detail ''Failed to send request''), d)
          else if existing_connection d (user_id actor) t \<noteq> []
            then (Failure 400 (Detail ''Already connected''), d)
          else if fails 1 then (Failure 500 (Detail ''Failed to send request''), d)
          else if existing_request d (user_id actor) t \<noteq> []
            then (Failure 400 (Detail ''Request already exists''), d)
          else if fails 2 then (Failure 500 (Detail ''Failed to send request''), d)
          else
            (case insert_connection_request d
                    \<lparr>cr_id = requestId, from_user_id = user_id actor, to_user_id = t,
                     cr_status = pending\<rparr> of
               Inl e \<Rightarrow> (Failure 500 (Detail ''Failed to send request''), d)
             | Inr d1 \<Rightarrow>
                 if fails 3 then (Failure 500 (Detail ''Failed to send request''), d1)
                 else
                   (case insert_notifications d1
                           (map (connection_request_notification t actor requestId)
                              (filter (\<lambda>u. user_id u = user_id actor) (users d1))) of
                      Inl e \<Rightarrow> (Failure 500 (Detail ''Failed to send request''), d1)
                    | Inr d2 \<Rightarrow> (Success ''Connection request sent'', d2))))"

text \<open>The handler awaits each of its four statements, and the store commits each one on
  its own, so requests of other users are served between them. The two halves of the
  handler as they run then: the guards and the two \<^verbatim>\<open>SELECT\<close>s, which end the request or
  let it go on with the target, and the two \<^verbatim>\<open>INSERT\<close>s, which run on whatever the
  database has become.\<close>

definition sendRequest_checks ::
  "(nat \<Rightarrow> bool) \<Rightarrow> database \<Rightarrow> user \<Rightarrow> uuid option \<Rightarrow> string reply + uuid" where
  "sendRequest_checks fails d actor target =
     (case target of
        None \<Rightarrow> Inl (Failure 400 (Detail ''Target user ID is required''))
      | Some t \<Rightarrow>
          if t = [] then Inl (Failure 400 (Detail ''Target user ID is required''))
          else if t = user_id actor then Inl (Failure 400 (Detail ''Cannot connect to yourself''))
          else if fails 0 then Inl (Failure 500 (Detail ''Failed to send request''))
          else if existing_connection d (user_id actor) t \<noteq> []
            then Inl (Failure 400 (Detail ''Already connected''))
          else if fails 1 then Inl (Failure 500 (Detail ''Failed to send request''))
          else if existing_request d (user_id actor) t \<noteq> []
            then Inl (Failure 400 (Detail ''Request already exists''))
          else Inr t)"

definition sendRequest_inserts ::
  "(nat \<Rightarrow> bool) \<Rightarrow> database \<Rightarrow> user \<Rightarrow> uuid \<Rightarrow> uuid \<Rightarrow> string reply \<times> database" where
  "sendRequest_inserts fails d actor requestId t =
     (if fails 2 then (Failure 500 (Detail ''Failed to send request''), d)
      else
        (case insert_connection_request d
                \<lparr>cr_id = requestId, from_user_id = user_id actor, to_user_id = t,
                 cr_status = pending\<rparr> of
           Inl e \<Rightarrow> (Failure 500 (Detail ''Failed to send request''), d)
         | Inr d1 \<Rightarrow>
             if fails 3 then (Failure 500 (Detail ''Failed to send request''), d1)
             else
               (case insert_notifications d1
                       (map (connection_request_notification t actor requestId)
                          (filter (\<lambda>u. user_id u = user_id actor) (users d1))) of
                  Inl e \<Rightarrow> (Failure 500 (Detail ''Failed to send request''), d1)
                | Inr d2 \<Rightarrow> (Success ''Connection request sent'', d2))))"

definition connection_accepted_notification :: "uuid \<Rightarrow> user \<Rightarrow> notification" where
  "connection_accepted_notification from_user u =
     \<lparr>n_user_id = from_user, n_type = ''connection_accepted'',
      n_title = ''Connection Accepted'',
      n_message = name u @ '' accepted your connection request'',
      n_avatar = avatar u, n_action_url = Some ''/connections'',
      n_related_id = None, is_read = False\<rparr>"

text \<open>The callback that \<^verbatim>\<open>PUT /connections/requests/:requestId/accept\<close> runs inside
  \<^verbatim>\<open>transaction\<close>; \<open>connId\<close> is the value of \<^verbatim>\<open>uuidv4()\<close>.\<close>

definition acceptRequest_callback ::
  "(nat \<Rightarrow> bool) \<Rightarrow> user \<Rightarrow> uuid \<Rightarrow> uuid \<Rightarrow> database \<Rightarrow> exn + (unit \<times> database)" where
  "acceptRequest_callback fails actor connId requestId d =
     (if fails 0 then Inl (PgError Query_failed)
      else
        (case filter (\<lambda>r. cr_id r = requestId \<and> to_user_id r = user_id actor
                           \<and> cr_status r = pending) (connection_requests d) of
           [] \<Rightarrow> Inl (Error ''Request not found or already processed'')
         | req # _ \<Rightarrow>
             if fails 1 then Inl (PgError Query_failed)
             else
               let d1 = d\<lparr>connection_requests :=
                          map (\<lambda>r. if cr_id r = requestId then r\<lparr>cr_status := accepted\<rparr> else r)
                            (connection_requests d)\<rparr>
               in if fails 2 then Inl (PgError Query_failed)
                  else
                    (case insert_connection d1
                            \<lparr>conn_id = connId, conn_user_id = from_user_id req,
                             connected_user_id = to_user_id req\<rparr> of
                       Inl e \<Rightarrow> Inl (PgError e)
                     | Inr d2 \<Rightarrow>
                         if fails 3 then Inl (PgError Query_failed)
                         else
                           (case insert_notifications d2
                                   (map (connection_accepted_notification (from_user_id req))
                                      (filter (\<lambda>u. user_id u = user_id actor) (users d2))) of
                              Inl e \<Rightarrow> Inl (PgError e)
                            | Inr d3 \<Rightarrow> Inr ((), d3)))))"

text \<open>\<^verbatim>\<open>PUT /connections/requests/:requestId/accept\<close>: whatever the transaction throws is
  answered 400 with the error's message.\<close>

definition acceptRequest ::
  "(nat \<Rightarrow> bool) \<Rightarrow> database \<Rightarrow> user \<Rightarrow> uuid \<Rightarrow> uuid \<Rightarrow> string reply \<times> database" where
  "acceptRequest fails d actor connId requestId =
     (case transaction d (acceptRequest_callback fails actor connId requestId) of
        (Inl e, d') \<Rightarrow> (Failure 400 (error_detail e ''Failed to accept request''), d')
      | (Inr _, d') \<Rightarrow> (Success ''Request accepted'', d'))"

text \<open>The body of \<^verbatim>\<open>GET /connections/check/:userId\<close>: \<^verbatim>\<open>{is_connected: true}\<close>,
  \<^verbatim>\<open>{is_connected: false, request_status}\<close> or \<^verbatim>\<open>{is_connected: false}\<close>.\<close>

record check_result =
  is_connected :: bool
  request_status :: "req_status option"

text \<open>The order in which the store returns the rows of a query that has no \<^verbatim>\<open>ORDER BY\<close>:
  \<open>pos i\<close> is the place, in the store's scan, of the \<open>i\<close>-th row of the list. Every
  order of the rows is the scan order of some \<open>pos\<close>.\<close>

definition store_order :: "(nat \<Rightarrow> nat) \<Rightarrow> 'a list \<Rightarrow> 'a list" where
  "store_order pos rows = map snd (sort_key fst (zip (map pos [0..<length rows]) rows))"

text \<open>\<^verbatim>\<open>GET /connections/check/:userId\<close>. The second query has no \<^verbatim>\<open>ORDER BY\<close>, and the
  handler reads \<^verbatim>\<open>request.rows[0].status\<close>.\<close>

definition checkStatus ::
  "(nat \<Rightarrow> bool) \<Rightarrow> (nat \<Rightarrow> nat) \<Rightarrow> database \<Rightarrow> user \<Rightarrow> uuid \<Rightarrow> check_result reply" where
  "checkStatus fails pos d actor other =
     (if fails 0 then Failure 500 (Detail ''Failed to check connection'')
      else if existing_connection d (user_id actor) other \<noteq> []
        then Success \<lparr>is_connected = True, request_status = None\<rparr>
      else if fails 1 then Failure 500 (Detail ''Failed to check connection'')
      else
        (case store_order pos (existing_request d (user_id actor) other) of
           r # _ \<Rightarrow> Success \<lparr>is_connected = False, request_status = Some (cr_status r)\<rparr>
         | [] \<Rightarrow> Success \<lparr>is_connected = False, request_status = None\<rparr>))"

text \<open>\<^verbatim>\<open>ORDER BY RANDOM()\<close>: the store draws a key for each row and sorts by it; \<open>rnd i\<close>
  is the key drawn for the \<open>i\<close>-th row.\<close>

definition order_by_random :: "(nat \<Rightarrow> nat) \<Rightarrow> 'a list \<Rightarrow> 'a list" where
  "order_by_random rnd rows = map snd (sort_key fst (zip (map rnd [0..<length rows]) rows))"

text \<open>The scalar subquery \<^verbatim>\<open>(SELECT university_id FROM users WHERE id = $1)\<close>: NULL for no
  row, an error for more than one.\<close>

definition scalar_university_id :: "database \<Rightarrow> uuid \<Rightarrow> pg_error + string option" where
  "scalar_university_id d uid =
     (case filter (\<lambda>u. user_id u = uid) (users d) of
        [] \<Rightarrow> Inr None
      | [u] \<Rightarrow> Inr (university_id u)
      | _ # _ # _ \<Rightarrow> Inl Cardinality_violation)"

text \<open>\<^verbatim>\<open>LEFT JOIN universities un ON u.university_id = un.id\<close>\<close>

definition left_join_university :: "database \<Rightarrow> user \<Rightarrow> (user \<times> university option) list" where
  "left_join_university d u =
     (case filter (\<lambda>un. university_id u = Some (uni_id un)) (universities d) of
        [] \<Rightarrow> [(u, None)]
      | un # uns \<Rightarrow> map (\<lambda>x. (u, Some x)) (un # uns))"

text \<open>The \<^verbatim>\<open>WHERE\<close> clause of the suggestions query; a comparison with NULL is not true.\<close>

definition suggestion_filter :: "database \<Rightarrow> uuid \<Rightarrow> string option \<Rightarrow> user \<Rightarrow> bool" where
  "suggestion_filter d uid uni u =
     (user_id u \<noteq> uid
      \<and> is_active u
      \<and> user_role u = alumni
      \<and> (case uni of None \<Rightarrow> False | Some i \<Rightarrow> university_id u = Some i)
      \<and> user_id u \<notin> set (map connected_user_id (filter (\<lambda>c. conn_user_id c = uid) (connections d))
                          @ map conn_user_id (filter (\<lambda>c. connected_user_id c = uid) (connections d)))
      \<and> user_id u \<notin> set (map to_user_id
                            (filter (\<lambda>r. from_user_id r = uid \<and> cr_status r = pending)
                               (connection_requests d))))"

text \<open>One entry of the \<^verbatim>\<open>connections\<close> array in the suggestions response (the profile
  columns \<^verbatim>\<open>job_title\<close>, \<^verbatim>\<open>company\<close>, \<^verbatim>\<open>year\<close>, \<^verbatim>\<open>major\<close> are copied through and left out
  here).\<close>

record suggestion =
  sug_user_id :: uuid
  sug_name :: string
  sug_avatar :: "string option"
  sug_university :: "string option"

definition to_suggestion :: "user \<times> university option \<Rightarrow> suggestion" where
  "to_suggestion row =
     \<lparr>sug_user_id = user_id (fst row), sug_name = name (fst row),
      sug_avatar = avatar (fst row), sug_university = map_option uni_name (snd row)\<rparr>"

text \<open>\<^verbatim>\<open>GET /connections/suggestions\<close>; \<open>limit\<close> is the query parameter (default 10), an
  integer; a negative \<^verbatim>\<open>LIMIT\<close> is refused by the store.\<close>

definition listSuggestions ::
  "(nat \<Rightarrow> bool) \<Rightarrow> (nat \<Rightarrow> nat) \<Rightarrow> database \<Rightarrow> user \<Rightarrow> int option \<Rightarrow> suggestion list reply" where
  "listSuggestions fails rnd d actor limit =
     (let n = (case limit of None \<Rightarrow> 10 | Some l \<Rightarrow> l)
      in if fails 0 then Failure 500 (Detail ''Failed to get suggestions'')
         else if n < 0 then Failure 500 (Detail ''Failed to get suggestions'')
         else
           (case scalar_university_id d (user_id actor) of
              Inl e \<Rightarrow> Failure 500 (Detail ''Failed to get suggestions'')
            | Inr uni \<Rightarrow>
                Success (map to_suggestion
                  (take (nat n)
                    (order_by_random rnd
                      (concat (map (left_join_university d)
                         (filter (suggestion_filter d (user_id actor) uni) (users d)))))))))"

section \<open>Mentorship engine (\<^verbatim>\<open>routes/mentors\<close>)\<close>

text \<open>JavaScript truthiness of an optional string: absent and empty are both false.\<close>

definition truthy :: "string option \<Rightarrow> bool" where
  "truthy s = (case s of None \<Rightarrow> False | Some x \<Rightarrow> x \<noteq> [])"

record mentor_filters =
  f_expertise :: "string option"
  f_availability :: "string option"
  f_search :: "string option"
  f_page :: "int option"
  f_page_size :: "int option"

text \<open>\<^verbatim>\<open>FROM mentors m JOIN users u ON m.user_id = u.id\<close>\<close>

definition mentors_join_users :: "database \<Rightarrow> (mentor \<times> user) list" where
  "mentors_join_users d =
     concat (map (\<lambda>m. map (\<lambda>u. (m, u)) (filter (\<lambda>u. mentor_user_id m = user_id u) (users d)))
               (mentors d))"

text \<open>The conditions that \<^verbatim>\<open>GET /mentors\<close> collects, in the handler's order; \<open>ilike\<close> is
  the store's \<^verbatim>\<open>ILIKE\<close> (text, pattern).\<close>

definition mentor_where ::
  "(string \<Rightarrow> string \<Rightarrow> bool) \<Rightarrow> user \<Rightarrow> mentor_filters \<Rightarrow> mentor \<times> user \<Rightarrow> bool" where
  "mentor_where ilike actor f row =
     (mentor_is_active (fst row) \<and> is_mentor (snd row) \<and> is_active (snd row)
      \<and> (if truthy (university_id actor)
          then university_id (snd row) = university_id actor else True)
      \<and> (case f_expertise f of None \<Rightarrow> True
          | Some e \<Rightarrow> if e = [] then True else e \<in> set (expertise (fst row)))
      \<and> (case f_availability f of None \<Rightarrow> True
          | Some a \<Rightarrow> if a = [] then True else availability (fst row) = Some a)
      \<and> (case f_search f of None \<Rightarrow> True
          | Some s \<Rightarrow>
              if s = [] then True
              else ilike (name (snd row)) (''%'' @ s @ ''%'')
                 \<or> (case bio (fst row) of None \<Rightarrow> False | Some b \<Rightarrow> ilike b (''%'' @ s @ ''%''))
                 \<or> (case title (fst row) of None \<Rightarrow> False | Some t \<Rightarrow> ilike t (''%'' @ s @ ''%''))))"

record mentor_item =
  mi_id :: uuid
  mi_user_id :: uuid
  mi_name :: string
  mi_expertise :: "string list"
  mi_availability :: "string option"
  mi_years_experience :: int
  mi_mentees_count :: int
  mi_match_score :: int

record mentor_page =
  page_mentors :: "mentor_item list"
  page_total :: nat

definition to_mentor_item :: "(nat \<Rightarrow> int) \<Rightarrow> nat \<times> mentor \<times> user \<Rightarrow> mentor_item" where
  "to_mentor_item score row =
     (case row of (i, m, u) \<Rightarrow>
        \<lparr>mi_id = mentor_id m, mi_user_id = user_id u, mi_name = name u,
         mi_expertise = expertise m, mi_availability = availability m,
         mi_years_experience = years_experience m, mi_mentees_count = mentees_count m,
         mi_match_score = score i\<rparr>)"

text \<open>\<^verbatim>\<open>GET /mentors\<close>: a count, then the page
  \<^verbatim>\<open>ORDER BY m.years_experience DESC LIMIT page_size OFFSET (page - 1) * page_size\<close>;
  \<open>score i\<close> is the value of \<^verbatim>\<open>ROUND(RANDOM() * 30 + 70)\<close> drawn for the \<open>i\<close>-th row of
  the page. A negative \<^verbatim>\<open>LIMIT\<close> or \<^verbatim>\<open>OFFSET\<close> is refused by the store.\<close>

definition listMentors ::
  "(nat \<Rightarrow> bool) \<Rightarrow> (string \<Rightarrow> string \<Rightarrow> bool) \<Rightarrow> (nat \<Rightarrow> int) \<Rightarrow> database \<Rightarrow> user
     \<Rightarrow> mentor_filters \<Rightarrow> mentor_page reply" where
  "listMentors fails ilike score d actor f =
     (let page = (case f_page f of None \<Rightarrow> 1 | Some p \<Rightarrow> p);
          page_size = (case f_page_size f of None \<Rightarrow> 20 | Some p \<Rightarrow> p);
          offset = (page - 1) * page_size;
          rows = filter (mentor_where ilike actor f) (mentors_join_users d)
      in if fails 0 then Failure 500 (Detail ''Failed to get mentors'')
         else if fails 1 then Failure 500 (Detail ''Failed to get mentors'')
         else if page_size < 0 \<or> offset < 0 then Failure 500 (Detail ''Failed to get mentors'')
         else
           let shown = take (nat page_size)
                         (drop (nat offset) (sort_key (\<lambda>row. - years_experience (fst row)) rows))
           in Success \<lparr>page_mentors = map (to_mentor_item score) (zip [0..<length shown] shown),
                       page_total = length rows\<rparr>)"

definition mentorship_accepted_notification :: "uuid \<Rightarrow> user \<Rightarrow> notification" where
  "mentorship_accepted_notification mentee u =
     \<lparr>n_user_id = mentee, n_type = ''mentorship_accepted'',
      n_title = ''Mentorship Request Accepted'',
      n_message = name u @ '' accepted your mentorship request'',
      n_avatar = avatar u, n_action_url = Some ''/mentorship'',
      n_related_id = None, is_read = False\<rparr>"








section \<open>Login (\<^verbatim>\<open>routes/auth\<close>)\<close>

text \<open>\<^verbatim>\<open>email.toLowerCase()\<close> on the ASCII letters that a validated address is made of.\<close>

definition to_lower :: "char \<Rightarrow> char" where
  "to_lower c =
     (let n = (of_char c :: nat) in if 65 \<le> n \<and> n \<le> 90 then char_of (n + 32) else c)"

definition toLowerCase :: "string \<Rightarrow> string" where
  "toLowerCase s = map to_lower s"

text \<open>The payload that \<^verbatim>\<open>generateToken\<close> signs; \<open>sign\<close> stands for \<^verbatim>\<open>jwt.sign\<close> with the
  configured secret and expiry.\<close>

record jwt_payload =
  jwt_userId :: uuid
  jwt_email :: string
  jwt_role :: role
  jwt_universityId :: "string option"

definition generateToken :: "(jwt_payload \<Rightarrow> string) \<Rightarrow> user \<Rightarrow> string" where
  "generateToken sign u =
     sign \<lparr>jwt_userId = user_id u, jwt_email = email u, jwt_role = user_role u,
           jwt_universityId = university_id u\<rparr>"

record login_response =
  access_token :: string
  login_user_id :: uuid
  university_branding :: "university option"
  all_universities :: "university list option"

text \<open>\<^verbatim>\<open>POST /auth/login\<close>, reached once the body has passed \<^verbatim>\<open>schemas.login\<close>.
  \<open>compare\<close> stands for \<^verbatim>\<open>bcrypt.compare\<close>. The joined \<^verbatim>\<open>is_enabled\<close> is NULL for a user
  without a university row, and the test is \<^verbatim>\<open>=== false\<close>. For a superadmin the
  response lists every university (the source sorts them by name; the list is given here
  in table order).\<close>

definition login ::
  "(nat \<Rightarrow> bool) \<Rightarrow> (string \<Rightarrow> string \<Rightarrow> bool) \<Rightarrow> (jwt_payload \<Rightarrow> string) \<Rightarrow> database
     \<Rightarrow> string \<Rightarrow> string \<Rightarrow> login_response reply" where
  "login fails compare sign d mail password =
     (if fails 0 then Failure 500 (Detail ''Login failed'')
      else
        (case concat (map (left_join_university d)
                       (filter (\<lambda>u. email u = toLowerCase mail) (users d))) of
           [] \<Rightarrow> Failure 401 (Detail ''Invalid email or password'')
         | (u, un) # _ \<Rightarrow>
             if \<not> is_active u then Failure 401 (Detail ''Account is deactivated'')
             else if user_role u \<noteq> superadmin \<and> truthy (university_id u)
                     \<and> map_option is_enabled un = Some False
               then Failure 401 (Detail ''University is currently disabled'')
             else if \<not> compare password (password_hash u)
               then Failure 401 (Detail ''Invalid email or password'')
             else if user_role u = superadmin \<and> fails 1
               then Failure 500 (Detail ''Login failed'')
             else
               Success \<lparr>access_token = generateToken sign u,
                        login_user_id = user_id u,
                        university_branding = (if truthy (university_id u) then un else None),
                        all_universities =
                          (if user_role u = superadmin
                           then Some (universities d) else None)\<rparr>))"

section \<open>Login: the conditions of the specification\<close>

text \<open>The specification's words for "the owning university has \<open>isEnabled = false\<close>": the
  university row that the user's \<open>university_id\<close> names is disabled.\<close>

definition owning_university_disabled :: "database \<Rightarrow> user \<Rightarrow> bool" where
  "owning_university_disabled d u =
     list_ex (\<lambda>un. university_id u = Some (uni_id un) \<and> \<not> is_enabled un) (universities d)"

text \<open>The specification's rejection condition: the email (compared without case) is
  unknown, or it names an account whose password is wrong, which is deactivated, or
  which is not a superadmin's and belongs to a disabled university.\<close>

definition login_must_reject ::
  "(string \<Rightarrow> string \<Rightarrow> bool) \<Rightarrow> database \<Rightarrow> string \<Rightarrow> string \<Rightarrow> bool" where
  "login_must_reject compare d mail password =
     (\<not> list_ex (\<lambda>u. toLowerCase (email u) = toLowerCase mail) (users d)
      \<or> list_ex (\<lambda>u. toLowerCase (email u) = toLowerCase mail
                     \<and> (\<not> compare password (password_hash u)
                        \<or> \<not> is_active u
                        \<or> (user_role u \<noteq> superadmin \<and> owning_university_disabled d u)))
           (users d))"

text \<open>What the schema and the writers of the \<^verbatim>\<open>users\<close> and \<^verbatim>\<open>universities\<close> tables
  guarantee: emails are unique and stored in lower case (every insert and update passes
  \<^verbatim>\<open>email.toLowerCase()\<close>), university ids are a primary key and never empty
  (\<^verbatim>\<open>POST /universities\<close> refuses an empty id).\<close>

definition accounts_wellformed :: "database \<Rightarrow> bool" where
  "accounts_wellformed d =
     (distinct (map email (users d))
      \<and> list_all (\<lambda>u. toLowerCase (email u) = email u) (users d)
      \<and> distinct (map uni_id (universities d))
      \<and> list_all (\<lambda>un. uni_id un \<noteq> []) (universities d))"

section \<open>Sample data\<close>

text \<open>Two alumni of the same university, used to run the handlers on concrete input.\<close>

definition ex_ann :: user where
  "ex_ann = \<lparr>user_id = ''a1'', email = ''ann@mit.edu'', password_hash = ''h1'', name = ''Ann'',
     avatar = None, university_id = Some ''mit'', user_role = alumni, is_mentor = False,
     is_active = True\<rparr>"

definition ex_bob :: user where
  "ex_bob = \<lparr>user_id = ''b2'', email = ''bob@mit.edu'', password_hash = ''h2'', name = ''Bob'',
     avatar = None, university_id = Some ''mit'', user_role = alumni, is_mentor = True,
     is_active = True\<rparr>"

definition ex_db :: database where
  "ex_db = empty_database\<lparr>universities :=
               [\<lparr>uni_id = ''mit'', uni_name = ''MIT'', is_enabled = True\<rparr>],
             users := [ex_ann, ex_bob]\<rparr>"

definition ex_request :: "req_status \<Rightarrow> connection_request" where
  "ex_request s = \<lparr>cr_id = ''r1'', from_user_id = ''a1'', to_user_id = ''b2'', cr_status = s\<rparr>"

definition ex_connection :: connection where
  "ex_connection = \<lparr>conn_id = ''c1'', conn_user_id = ''a1'', connected_user_id = ''b2''\<rparr>"

text \<open>The sample database after Ann has asked Bob to connect.\<close>

definition ex_db_requested :: database where
  "ex_db_requested = ex_db\<lparr>connection_requests := [ex_request pending],
     notifications := [connection_request_notification ''b2'' ex_ann ''r1'' ex_ann]\<rparr>"

text \<open>The sample database after Bob has accepted.\<close>

definition ex_db_connected :: database where
  "ex_db_connected = ex_db\<lparr>connection_requests := [ex_request accepted],
     connections := [ex_connection],
     notifications := [connection_request_notification ''b2'' ex_ann ''r1'' ex_ann,
                       connection_accepted_notification ''a1'' ex_bob]\<rparr>"

text \<open>A second university with a mentor of its own, an alumna registered without a
  university (\<^verbatim>\<open>schemas.register\<close> leaves \<^verbatim>\<open>university_id\<close> optional) and the seeded
  superadmin, who belongs to none.\<close>

definition ex_cat :: user where
  "ex_cat = \<lparr>user_id = ''c3'', email = ''cat@mail.org'', password_hash = ''h3'', name = ''Cat'',
     avatar = None, university_id = None, user_role = alumni, is_mentor = False,
     is_active = True\<rparr>"

definition ex_dan :: user where
  "ex_dan = \<lparr>user_id = ''d4'', email = ''dan@ox.ac.uk'', password_hash = ''h4'', name = ''Dan'',
     avatar = None, university_id = Some ''oxford'', user_role = alumni, is_mentor = True,
     is_active = True\<rparr>"

definition ex_root :: user where
  "ex_root = \<lparr>user_id = ''s0'', email = ''root@alumni.org'', password_hash = ''h0'',
     name = ''Root'', avatar = None, university_id = None, user_role = superadmin,
     is_mentor = False, is_active = True\<rparr>"

text \<open>An administrator and a deactivated alumna of Ann's university.\<close>

definition ex_eve :: user where
  "ex_eve = \<lparr>user_id = ''e5'', email = ''eve@mit.edu'', password_hash = ''h5'', name = ''Eve'',
     avatar = None, university_id = Some ''mit'', user_role = admin, is_mentor = False,
     is_active = True\<rparr>"

definition ex_fay :: user where
  "ex_fay = \<lparr>user_id = ''f6'', email = ''fay@mit.edu'', password_hash = ''h6'', name = ''Fay'',
     avatar = None, university_id = Some ''mit'', user_role = alumni, is_mentor = False,
     is_active = False\<rparr>"

definition ex_suggestion_bob :: suggestion where
  "ex_suggestion_bob = \<lparr>sug_user_id = ''b2'', sug_name = ''Bob'', sug_avatar = None,
     sug_university = Some ''MIT''\<rparr>"

definition ex_mentor_bob :: mentor where
  "ex_mentor_bob = \<lparr>mentor_id = ''m1'', mentor_user_id = ''b2'', title = Some ''Engineer'',
     bio = None, expertise = [''python''], availability = Some ''weekly'',
     years_experience = 7, mentees_count = 0, mentor_is_active = True\<rparr>"

definition ex_mentor_dan :: mentor where
  "ex_mentor_dan = \<lparr>mentor_id = ''m2'', mentor_user_id = ''d4'', title = Some ''Professor'',
     bio = None, expertise = [''law''], availability = Some ''monthly'',
     years_experience = 3, mentees_count = 0, mentor_is_active = True\<rparr>"

definition ex_db_mentors :: database where
  "ex_db_mentors = empty_database\<lparr>universities :=
       [\<lparr>uni_id = ''mit'', uni_name = ''MIT'', is_enabled = True\<rparr>,
        \<lparr>uni_id = ''oxford'', uni_name = ''Oxford'', is_enabled = False\<rparr>],
     users := [ex_ann, ex_bob, ex_cat, ex_dan, ex_root, ex_eve, ex_fay],
     mentors := [ex_mentor_bob, ex_mentor_dan]\<rparr>"

definition no_filters :: mentor_filters where
  "no_filters = \<lparr>f_expertise = None, f_availability = None, f_search = None,
     f_page = None, f_page_size = None\<rparr>"

definition ex_item_bob :: mentor_item where
  "ex_item_bob = \<lparr>mi_id = ''m1'', mi_user_id = ''b2'', mi_name = ''Bob'',
     mi_expertise = [''python''], mi_availability = Some ''weekly'',
     mi_years_experience = 7, mi_mentees_count = 0, mi_match_score = 85\<rparr>"

definition ex_item_dan :: mentor_item where
  "ex_item_dan = \<lparr>mi_id = ''m2'', mi_user_id = ''d4'', mi_name = ''Dan'',
     mi_expertise = [''law''], mi_availability = Some ''monthly'',
     mi_years_experience = 3, mi_mentees_count = 0, mi_match_score = 85\<rparr>"

text \<open>Ann and Cat have each asked Bob to be their mentor.\<close>

definition ex_mentorship_requests :: "req_status \<Rightarrow> req_status \<Rightarrow> mentorship_request list" where
  "ex_mentorship_requests s1 s2 =
     [\<lparr>mr_id = ''q1'', mr_mentor_id = ''m1'', mentee_id = ''a1'', mr_message = Some ''hello'',
        mr_status = s1\<rparr>,
      \<lparr>mr_id = ''q2'', mr_mentor_id = ''m1'', mentee_id = ''c3'', mr_message = None,
        mr_status = s2\<rparr>]"

definition ex_db_mentorship :: database where
  "ex_db_mentorship =
     ex_db_mentors\<lparr>mentorship_requests := ex_mentorship_requests pending pending\<rparr>"

text \<open>The same database after Bob has accepted both.\<close>

definition ex_db_mentored :: database where
  "ex_db_mentored =
     ex_db_mentors\<lparr>mentorship_requests := ex_mentorship_requests accepted accepted,
       mentors := [ex_mentor_bob\<lparr>mentees_count := 2\<rparr>, ex_mentor_dan],
       notifications := [mentorship_accepted_notification ''a1'' ex_bob,
                         mentorship_accepted_notification ''c3'' ex_bob]\<rparr>"

text \<open>A database with a row in every table of the two engines.\<close>

definition ex_db_full :: database where
  "ex_db_full = ex_db_mentorship\<lparr>connection_requests := [ex_request accepted],
     connections := [ex_connection]\<rparr>"

text \<open>Ann and Bob ask each other at the same moment: both requests pass their checks on
  \<open>ex_db\<close> before either is inserted. The states after both inserts, after Bob's accept
  of Ann's request, and after Ann's accept of Bob's.\<close>

definition ex_request_back :: "req_status \<Rightarrow> connection_request" where
  "ex_request_back s =
     \<lparr>cr_id = ''r2'', from_user_id = ''b2'', to_user_id = ''a1'', cr_status = s\<rparr>"

definition ex_connection_back :: connection where
  "ex_connection_back = \<lparr>conn_id = ''c2'', conn_user_id = ''b2'', connected_user_id = ''a1''\<rparr>"

definition ex_db_crossed :: database where
  "ex_db_crossed = ex_db\<lparr>connection_requests := [ex_request pending, ex_request_back pending],
     notifications := [connection_request_notification ''b2'' ex_ann ''r1'' ex_ann,
                       connection_request_notification ''a1'' ex_bob ''r2'' ex_bob]\<rparr>"

definition ex_db_crossed_accepted :: database where
  "ex_db_crossed_accepted =
     ex_db\<lparr>connection_requests := [ex_request accepted, ex_request_back pending],
       connections := [ex_connection],
       notifications := [connection_request_notification ''b2'' ex_ann ''r1'' ex_ann,
                         connection_request_notification ''a1'' ex_bob ''r2'' ex_bob,
                         connection_accepted_notification ''a1'' ex_bob]\<rparr>"

definition ex_db_twice_connected :: database where
  "ex_db_twice_connected =
     ex_db\<lparr>connection_requests := [ex_request accepted, ex_request_back accepted],
       connections := [ex_connection, ex_connection_back],
       notifications := [connection_request_notification ''b2'' ex_ann ''r1'' ex_ann,
                         connection_request_notification ''a1'' ex_bob ''r2'' ex_bob,
                         connection_accepted_notification ''a1'' ex_bob,
                         connection_accepted_notification ''b2'' ex_ann]\<rparr>"

section \<open>Verification\<close>

lemmas ex_defs = ex_ann_def ex_bob_def ex_db_def ex_request_def ex_connection_def
  empty_database_def ex_db_requested_def ex_db_connected_def ex_request_back_def
  ex_connection_back_def ex_db_crossed_def ex_db_crossed_accepted_def
  ex_db_twice_connected_def

lemmas ex_mentor_defs = ex_ann_def ex_bob_def ex_cat_def ex_dan_def ex_root_def
  ex_eve_def ex_fay_def ex_suggestion_bob_def ex_mentorship_requests_def
  ex_db_mentorship_def ex_db_mentored_def ex_db_full_def ex_request_def ex_connection_def
  ex_mentor_bob_def ex_mentor_dan_def ex_db_mentors_def empty_database_def no_filters_def
  ex_item_bob_def ex_item_dan_def

subsection \<open>Facts about keys and orders\<close>

lemma distinct_key_eq:
  "distinct (map f xs) \<Longrightarrow> x \<in> set xs \<Longrightarrow> y \<in> set xs \<Longrightarrow> f x = f y \<Longrightarrow> x = y"
  by (meson distinct_map inj_onD)

lemma distinct_key_filter_le1:
  "distinct (map f xs) \<Longrightarrow> length (filter (\<lambda>x. f x = k) xs) \<le> 1"
proof (induction xs)
  case Nil
  then show ?case by simp
next
  case (Cons y ys)
  show ?case
  proof (cases "f y = k")
    case True
    with Cons.prems have "k \<notin> f ` set ys" by auto
    then have "filter (\<lambda>x. f x = k) ys = []"
      unfolding filter_empty_conv by (metis imageI)
    with True show ?thesis by simp
  next
    case False
    with Cons show ?thesis by simp
  qed
qed

lemma set_store_order: "set (store_order pos rows) = set rows"
proof -
  let ?zs = "zip (map pos [0..<length rows]) rows"
  have z: "map snd ?zs = rows" by (rule map_snd_zip) simp
  have "set (store_order pos rows) = snd ` set ?zs"
    by (simp add: store_order_def)
  also have "\<dots> = set (map snd ?zs)" by (simp only: set_map)
  finally show ?thesis by (simp only: z)
qed

subsection \<open>Reading the status of a pair\<close>

lemma existing_request_sym: "existing_request d a b = existing_request d b a"
  unfolding existing_request_def by (rule filter_cong) auto

lemma existing_connection_sym: "existing_connection d a b = existing_connection d b a"
  unfolding existing_connection_def by (rule filter_cong) auto

lemma existing_connection_requests_update:
  "existing_connection (d\<lparr>connection_requests := rs\<rparr>) a b = existing_connection d a b"
  by (simp add: existing_connection_def)

lemma existing_connection_rows:
  "existing_connection d a b \<noteq> [] \<longleftrightarrow>
     (\<exists>c\<in>set (connections d). (conn_user_id c = a \<and> connected_user_id c = b)
                              \<or> (conn_user_id c = b \<and> connected_user_id c = a))"
  by (auto simp: existing_connection_def filter_empty_conv)

lemma existing_request_rows:
  "r \<in> set (existing_request d a b) \<longleftrightarrow>
     r \<in> set (connection_requests d)
     \<and> ((from_user_id r = a \<and> to_user_id r = b) \<or> (from_user_id r = b \<and> to_user_id r = a))"
  by (simp add: existing_request_def)

lemma checkStatus_connected:
  "\<not> fails 0 \<Longrightarrow> existing_connection d (user_id actor) other \<noteq> [] \<Longrightarrow>
     checkStatus fails pos d actor other = Success \<lparr>is_connected = True, request_status = None\<rparr>"
  by (simp add: checkStatus_def)

lemma checkStatus_request:
  assumes "\<not> fails 0" "\<not> fails 1"
      and "existing_connection d (user_id actor) other = []"
      and "existing_request d (user_id actor) other \<noteq> []"
  shows "\<exists>r\<in>set (existing_request d (user_id actor) other).
           checkStatus fails pos d actor other
             = Success \<lparr>is_connected = False, request_status = Some (cr_status r)\<rparr>"
proof -
  let ?rows = "store_order pos (existing_request d (user_id actor) other)"
  from assms(4) have "set ?rows \<noteq> {}" by (simp only: set_store_order) simp
  then obtain r rest where rows: "?rows = r # rest" by (cases ?rows) auto
  then have "r \<in> set ?rows" by simp
  then have mem: "r \<in> set (existing_request d (user_id actor) other)"
    by (simp only: set_store_order)
  have "checkStatus fails pos d actor other
          = Success \<lparr>is_connected = False, request_status = Some (cr_status r)\<rparr>"
    using assms(1-3) rows by (simp add: checkStatus_def)
  with mem show ?thesis by (rule rev_bexI)
qed

lemma checkStatus_none:
  assumes "\<not> fails 0" "\<not> fails 1"
      and "existing_connection d (user_id actor) other = []"
      and "existing_request d (user_id actor) other = []"
  shows "checkStatus fails pos d actor other
           = Success \<lparr>is_connected = False, request_status = None\<rparr>"
proof -
  have "set (store_order pos (existing_request d (user_id actor) other)) = {}"
    using assms(4) by (simp only: set_store_order) simp
  then have "store_order pos (existing_request d (user_id actor) other) = []" by simp
  with assms(1-3) show ?thesis by (simp add: checkStatus_def)
qed

text \<open>
  C8, as the specification states it: the status of a pair is one of connected, pending
  (with a direction) or none. It fails on a pair whose only request was rejected: the
  handler answers \<^verbatim>\<open>{is_connected: false, request_status: 'rejected'}\<close>, which is none of
  the three.
\<close>

theorem checkStatus_rejected_counterexample:
  "checkStatus no_faults (\<lambda>i. i) (ex_db\<lparr>connection_requests := [ex_request rejected]\<rparr>)
       ex_bob ''a1''
     = Success \<lparr>is_connected = False, request_status = Some rejected\<rparr>"
  by (simp add: checkStatus_def no_faults_def existing_connection_def existing_request_def
        store_order_def ex_defs)

text \<open>
  C8, amended: when the store answers, \<^verbatim>\<open>checkStatus\<close> returns exactly one of three
  answers, decided by the rows of the two tables. If a connection row holds the pair, in
  either direction, it answers \<^verbatim>\<open>{is_connected: true}\<close>, whatever the requests table
  holds. Otherwise, if a request row holds the pair, in either direction, it answers
  \<^verbatim>\<open>{is_connected: false, request_status: s}\<close> where \<open>s\<close> is the status (pending, accepted
  or rejected) of such a row. Otherwise it answers \<^verbatim>\<open>{is_connected: false}\<close>. The answer
  carries no direction: when the request rows of the pair agree on their status, both
  users of the pair read that status.
\<close>

theorem checkStatus_cases:
  assumes "\<not> fails 0" "\<not> fails 1"
  shows "((\<exists>c\<in>set (connections d).
             (conn_user_id c = user_id actor \<and> connected_user_id c = other)
             \<or> (conn_user_id c = other \<and> connected_user_id c = user_id actor)) \<longrightarrow>
            checkStatus fails pos d actor other
              = Success \<lparr>is_connected = True, request_status = None\<rparr>
          \<and> (\<forall>rs g q. \<not> g 0 \<longrightarrow>
                checkStatus g q (d\<lparr>connection_requests := rs\<rparr>) actor other
                  = Success \<lparr>is_connected = True, request_status = None\<rparr>))
       \<and> (\<not> (\<exists>c\<in>set (connections d).
               (conn_user_id c = user_id actor \<and> connected_user_id c = other)
               \<or> (conn_user_id c = other \<and> connected_user_id c = user_id actor)) \<longrightarrow>
            (\<exists>r\<in>set (connection_requests d).
               (from_user_id r = user_id actor \<and> to_user_id r = other)
               \<or> (from_user_id r = other \<and> to_user_id r = user_id actor)) \<longrightarrow>
            (\<exists>r\<in>set (connection_requests d).
               ((from_user_id r = user_id actor \<and> to_user_id r = other)
                \<or> (from_user_id r = other \<and> to_user_id r = user_id actor))
               \<and> checkStatus fails pos d actor other
                   = Success \<lparr>is_connected = False, request_status = Some (cr_status r)\<rparr>)
            \<and> ((\<forall>r\<in>set (connection_requests d).
                   (from_user_id r = user_id actor \<and> to_user_id r = other)
                   \<or> (from_user_id r = other \<and> to_user_id r = user_id actor)
                   \<longrightarrow> cr_status r = s) \<longrightarrow>
                 user_id other_user = other \<longrightarrow>
                 checkStatus fails pos d actor other
                   = Success \<lparr>is_connected = False, request_status = Some s\<rparr>
                 \<and> checkStatus fails q d other_user (user_id actor)
                   = Success \<lparr>is_connected = False, request_status = Some s\<rparr>))
       \<and> (\<not> (\<exists>c\<in>set (connections d).
               (conn_user_id c = user_id actor \<and> connected_user_id c = other)
               \<or> (conn_user_id c = other \<and> connected_user_id c = user_id actor)) \<longrightarrow>
            \<not> (\<exists>r\<in>set (connection_requests d).
               (from_user_id r = user_id actor \<and> to_user_id r = other)
               \<or> (from_user_id r = other \<and> to_user_id r = user_id actor)) \<longrightarrow>
            checkStatus fails pos d actor other
              = Success \<lparr>is_connected = False, request_status = None\<rparr>)"
proof -
  let ?conn = "\<exists>c\<in>set (connections d).
             (conn_user_id c = user_id actor \<and> connected_user_id c = other)
             \<or> (conn_user_id c = other \<and> connected_user_id c = user_id actor)"
  let ?req = "\<exists>r\<in>set (connection_requests d).
               (from_user_id r = user_id actor \<and> to_user_id r = other)
               \<or> (from_user_id r = other \<and> to_user_id r = user_id actor)"
  have conn: "existing_connection d (user_id actor) other \<noteq> [] \<longleftrightarrow> ?conn"
    by (rule existing_connection_rows)
  have req: "existing_request d (user_id actor) other \<noteq> [] \<longleftrightarrow> ?req"
  proof -
    have "existing_request d (user_id actor) other \<noteq> []
            \<longleftrightarrow> (\<exists>r. r \<in> set (existing_request d (user_id actor) other))"
      by (cases "existing_request d (user_id actor) other") auto
    then show ?thesis by (simp only: existing_request_rows) blast
  qed
  have first: "checkStatus fails pos d actor other
              = Success \<lparr>is_connected = True, request_status = None\<rparr>
          \<and> (\<forall>rs g q. \<not> g 0 \<longrightarrow>
                checkStatus g q (d\<lparr>connection_requests := rs\<rparr>) actor other
                  = Success \<lparr>is_connected = True, request_status = None\<rparr>)" if ?conn
  proof (intro conjI allI impI)
    from that conn have c: "existing_connection d (user_id actor) other \<noteq> []" by blast
    show "checkStatus fails pos d actor other
            = Success \<lparr>is_connected = True, request_status = None\<rparr>"
      using assms(1) c by (rule checkStatus_connected)
    fix rs and g :: "nat \<Rightarrow> bool" and q :: "nat \<Rightarrow> nat"
    assume g: "\<not> g 0"
    have "existing_connection (d\<lparr>connection_requests := rs\<rparr>) (user_id actor) other \<noteq> []"
      using c by (simp add: existing_connection_requests_update)
    with g show "checkStatus g q (d\<lparr>connection_requests := rs\<rparr>) actor other
                  = Success \<lparr>is_connected = True, request_status = None\<rparr>"
      by (rule checkStatus_connected)
  qed
  have second: "(\<exists>r\<in>set (connection_requests d).
               ((from_user_id r = user_id actor \<and> to_user_id r = other)
                \<or> (from_user_id r = other \<and> to_user_id r = user_id actor))
               \<and> checkStatus fails pos d actor other
                   = Success \<lparr>is_connected = False, request_status = Some (cr_status r)\<rparr>)
            \<and> ((\<forall>r\<in>set (connection_requests d).
                   (from_user_id r = user_id actor \<and> to_user_id r = other)
                   \<or> (from_user_id r = other \<and> to_user_id r = user_id actor)
                   \<longrightarrow> cr_status r = s) \<longrightarrow>
                 user_id other_user = other \<longrightarrow>
                 checkStatus fails pos d actor other
                   = Success \<lparr>is_connected = False, request_status = Some s\<rparr>
                 \<and> checkStatus fails q d other_user (user_id actor)
                   = Success \<lparr>is_connected = False, request_status = Some s\<rparr>)"
    if nc: "\<not> ?conn" and r: ?req
  proof (intro conjI impI)
    from nc conn have c: "existing_connection d (user_id actor) other = []" by blast
    from r req have e: "existing_request d (user_id actor) other \<noteq> []" by blast
    from checkStatus_request[OF assms c e, of pos] obtain r0 where
      r0: "r0 \<in> set (existing_request d (user_id actor) other)"
      "checkStatus fails pos d actor other
         = Success \<lparr>is_connected = False, request_status = Some (cr_status r0)\<rparr>" by blast
    from r0(1) have r0': "r0 \<in> set (connection_requests d)"
      "(from_user_id r0 = user_id actor \<and> to_user_id r0 = other)
       \<or> (from_user_id r0 = other \<and> to_user_id r0 = user_id actor)"
      using existing_request_rows[of r0 d "user_id actor" other] by blast+
    from r0'(2) r0(2) have
      "((from_user_id r0 = user_id actor \<and> to_user_id r0 = other)
                \<or> (from_user_id r0 = other \<and> to_user_id r0 = user_id actor))
               \<and> checkStatus fails pos d actor other
                   = Success \<lparr>is_connected = False, request_status = Some (cr_status r0)\<rparr>"
      by (rule conjI)
    with r0'(1) show "\<exists>r\<in>set (connection_requests d).
               ((from_user_id r = user_id actor \<and> to_user_id r = other)
                \<or> (from_user_id r = other \<and> to_user_id r = user_id actor))
               \<and> checkStatus fails pos d actor other
                   = Success \<lparr>is_connected = False, request_status = Some (cr_status r)\<rparr>"
      by (rule rev_bexI)
    assume all: "\<forall>r\<in>set (connection_requests d).
                   (from_user_id r = user_id actor \<and> to_user_id r = other)
                   \<or> (from_user_id r = other \<and> to_user_id r = user_id actor)
                   \<longrightarrow> cr_status r = s"
      and o: "user_id other_user = other"
    from all r0' have "cr_status r0 = s" by blast
    with r0(2) show "checkStatus fails pos d actor other
                   = Success \<lparr>is_connected = False, request_status = Some s\<rparr>" by simp
    have c': "existing_connection d (user_id other_user) (user_id actor) = []"
      using c o by (simp add: existing_connection_sym[of d other])
    have e': "existing_request d (user_id other_user) (user_id actor) \<noteq> []"
      using e o by (simp add: existing_request_sym[of d other])
    from checkStatus_request[OF assms c' e', of q] obtain r1 where
      r1: "r1 \<in> set (existing_request d (user_id other_user) (user_id actor))"
      "checkStatus fails q d other_user (user_id actor)
         = Success \<lparr>is_connected = False, request_status = Some (cr_status r1)\<rparr>" by blast
    from r1(1) o have "r1 \<in> set (existing_request d (user_id actor) other)"
      by (simp add: existing_request_sym[of d other])
    then have "r1 \<in> set (connection_requests d)"
      "(from_user_id r1 = user_id actor \<and> to_user_id r1 = other)
       \<or> (from_user_id r1 = other \<and> to_user_id r1 = user_id actor)"
      using existing_request_rows[of r1 d "user_id actor" other] by blast+
    with all have "cr_status r1 = s" by blast
    with r1(2) show "checkStatus fails q d other_user (user_id actor)
                   = Success \<lparr>is_connected = False, request_status = Some s\<rparr>" by simp
  qed
  have third: "checkStatus fails pos d actor other
              = Success \<lparr>is_connected = False, request_status = None\<rparr>"
    if nc: "\<not> ?conn" and nr: "\<not> ?req"
  proof -
    from nc conn have c: "existing_connection d (user_id actor) other = []" by blast
    from nr req have e: "existing_request d (user_id actor) other = []" by blast
    from assms c e show ?thesis by (rule checkStatus_none)
  qed
  from first second third show ?thesis by blast
qed

theorem checkStatus_cases_witness:
  "\<not> no_faults 0 \<and> \<not> no_faults 1
   \<and> (\<exists>c\<in>set (connections ex_db_connected).
         conn_user_id c = ''a1'' \<and> connected_user_id c = ''b2'')
   \<and> checkStatus no_faults (\<lambda>i. i) ex_db_connected ex_bob ''a1''
       = Success \<lparr>is_connected = True, request_status = None\<rparr>
   \<and> checkStatus no_faults (\<lambda>i. i) (ex_db_connected\<lparr>connection_requests := []\<rparr>) ex_bob ''a1''
       = Success \<lparr>is_connected = True, request_status = None\<rparr>
   \<and> connections ex_db_requested = []
   \<and> connection_requests ex_db_requested
       = [\<lparr>cr_id = ''r1'', from_user_id = ''a1'', to_user_id = ''b2'', cr_status = pending\<rparr>]
   \<and> checkStatus no_faults (\<lambda>i. i) ex_db_requested ex_bob ''a1''
       = Success \<lparr>is_connected = False, request_status = Some pending\<rparr>
   \<and> checkStatus no_faults (\<lambda>i. i) ex_db_requested ex_ann ''b2''
       = Success \<lparr>is_connected = False, request_status = Some pending\<rparr>
   \<and> connections ex_db = [] \<and> connection_requests ex_db = []
   \<and> checkStatus no_faults (\<lambda>i. i) ex_db ex_bob ''a1''
       = Success \<lparr>is_connected = False, request_status = None\<rparr>"
proof -
  have nf: "\<not> no_faults 0" "\<not> no_faults 1" by (simp_all add: no_faults_def)
  have ids: "user_id ex_bob = ''b2''" "user_id ex_ann = ''a1''" by (simp_all add: ex_defs)
  have conn: "\<exists>c\<in>set (connections ex_db_connected).
         conn_user_id c = ''a1'' \<and> connected_user_id c = ''b2''"
    by (simp add: ex_defs)
  then have conn': "\<exists>c\<in>set (connections ex_db_connected).
             (conn_user_id c = user_id ex_bob \<and> connected_user_id c = ''a1'')
             \<or> (conn_user_id c = ''a1'' \<and> connected_user_id c = user_id ex_bob)"
    unfolding ids by blast
  note t1 = checkStatus_cases[where fails = no_faults and d = ex_db_connected
      and actor = ex_bob and other = "''a1''" and pos = "\<lambda>i. i", OF nf]
  have c1: "checkStatus no_faults (\<lambda>i. i) ex_db_connected ex_bob ''a1''
       = Success \<lparr>is_connected = True, request_status = None\<rparr>"
    using t1 conn' by blast
  have c2: "checkStatus no_faults (\<lambda>i. i) (ex_db_connected\<lparr>connection_requests := []\<rparr>)
       ex_bob ''a1'' = Success \<lparr>is_connected = True, request_status = None\<rparr>"
    using t1 conn' nf(1) by blast
  have tabs: "connections ex_db_requested = []"
    "connection_requests ex_db_requested
       = [\<lparr>cr_id = ''r1'', from_user_id = ''a1'', to_user_id = ''b2'', cr_status = pending\<rparr>]"
    "connections ex_db = []" "connection_requests ex_db = []"
    by (simp_all add: ex_defs)
  have nc: "\<not> (\<exists>c\<in>set (connections ex_db_requested).
             (conn_user_id c = user_id ex_bob \<and> connected_user_id c = ''a1'')
             \<or> (conn_user_id c = ''a1'' \<and> connected_user_id c = user_id ex_bob))"
    by (simp add: tabs)
  have r: "\<exists>r\<in>set (connection_requests ex_db_requested).
               (from_user_id r = user_id ex_bob \<and> to_user_id r = ''a1'')
               \<or> (from_user_id r = ''a1'' \<and> to_user_id r = user_id ex_bob)"
    by (simp add: tabs ids)
  have al: "\<forall>r\<in>set (connection_requests ex_db_requested).
                   (from_user_id r = user_id ex_bob \<and> to_user_id r = ''a1'')
                   \<or> (from_user_id r = ''a1'' \<and> to_user_id r = user_id ex_bob)
                   \<longrightarrow> cr_status r = pending"
    by (simp add: tabs)
  note t2 = checkStatus_cases[where fails = no_faults and d = ex_db_requested
      and actor = ex_bob and other = "''a1''" and pos = "\<lambda>i. i" and s = pending
      and other_user = ex_ann and q = "\<lambda>i. i", OF nf]
  have "checkStatus no_faults (\<lambda>i. i) ex_db_requested ex_bob ''a1''
                   = Success \<lparr>is_connected = False, request_status = Some pending\<rparr>
                 \<and> checkStatus no_faults (\<lambda>i. i) ex_db_requested ex_ann (user_id ex_bob)
                   = Success \<lparr>is_connected = False, request_status = Some pending\<rparr>"
    using t2 nc r al ids(2) by blast
  then have p: "checkStatus no_faults (\<lambda>i. i) ex_db_requested ex_bob ''a1''
       = Success \<lparr>is_connected = False, request_status = Some pending\<rparr>"
    "checkStatus no_faults (\<lambda>i. i) ex_db_requested ex_ann ''b2''
       = Success \<lparr>is_connected = False, request_status = Some pending\<rparr>"
    unfolding ids by blast+
  have nc0: "\<not> (\<exists>c\<in>set (connections ex_db).
             (conn_user_id c = user_id ex_bob \<and> connected_user_id c = ''a1'')
             \<or> (conn_user_id c = ''a1'' \<and> connected_user_id c = user_id ex_bob))"
    by (simp add: tabs)
  have nr0: "\<not> (\<exists>r\<in>set (connection_requests ex_db).
               (from_user_id r = user_id ex_bob \<and> to_user_id r = ''a1'')
               \<or> (from_user_id r = ''a1'' \<and> to_user_id r = user_id ex_bob))"
    by (simp add: tabs)
  note t3 = checkStatus_cases[where fails = no_faults and d = ex_db
      and actor = ex_bob and other = "''a1''" and pos = "\<lambda>i. i", OF nf]
  have n: "checkStatus no_faults (\<lambda>i. i) ex_db ex_bob ''a1''
       = Success \<lparr>is_connected = False, request_status = None\<rparr>"
    using t3 nc0 nr0 by blast
  from nf conn c1 c2 tabs(1,2) p tabs(3,4) n show ?thesis by (intro conjI)
qed

subsection \<open>Uniqueness constraints of the schema\<close>









subsection \<open>Sending a request\<close>

lemma existing_request_nonempty:
  "r \<in> set (connection_requests d) \<Longrightarrow> from_user_id r = a \<Longrightarrow> to_user_id r = b \<Longrightarrow>
     existing_request d a b \<noteq> []"
  by (auto simp: existing_request_def filter_empty_conv)

lemma sendRequest_conflict_unchanged:
  assumes "existing_request d (user_id actor) t \<noteq> []" "t \<noteq> []" "t \<noteq> user_id actor"
  shows "\<exists>s c. sendRequest fails d actor rid (Some t) = (Failure s c, d)"
  using assms by (simp add: sendRequest_def)

lemma sendRequest_conflict_400:
  assumes "existing_request d (user_id actor) t \<noteq> []" "t \<noteq> []" "t \<noteq> user_id actor"
    "\<not> fails 0" "\<not> fails 1"
  shows "sendRequest fails d actor rid (Some t)
           = (Failure 400 (Detail (if existing_connection d (user_id actor) t \<noteq> []
                                   then ''Already connected'' else ''Request already exists'')), d)"
  using assms by (simp add: sendRequest_def)

lemma sendRequest_success:
  assumes "sendRequest fails d actor rid (Some t) = (Success m, d')"
  shows "t \<noteq> []" "t \<noteq> user_id actor" "existing_connection d (user_id actor) t = []"
      "existing_request d (user_id actor) t = []"
      "connection_requests d' = connection_requests d @ [\<lparr>cr_id = rid, from_user_id = user_id actor, to_user_id = t, cr_status = pending\<rparr>]"
      "connections d' = connections d" "users d' = users d"
  using assms
  by (auto simp: sendRequest_def insert_connection_request_def insert_notifications_def
      split: if_splits sum.splits)


text \<open>
  C2: once \<^verbatim>\<open>sendRequest(A, B)\<close> has succeeded, in every later state where that request
  is still pending (any state \<open>d2\<close> that holds the pending row from A to B), a further
  \<^verbatim>\<open>sendRequest(A, B)\<close> or \<^verbatim>\<open>sendRequest(B, A)\<close> is answered 400 with the conflict
  detail \<^verbatim>\<open>Already connected\<close> or \<^verbatim>\<open>Request already exists\<close>, and the database is left as
  it was: no second row. Whatever the store does (\<open>h\<close>), the second request never
  succeeds and never changes the database.
\<close>

theorem sendRequest_no_duplicate_request:
  assumes ok: "sendRequest fails d a rid (Some (user_id b)) = (Success m, d1)"
      and id: "user_id a \<noteq> []"
      and still: "r \<in> set (connection_requests d2)" "from_user_id r = user_id a"
        "to_user_id r = user_id b" "cr_status r = pending"
      and store: "\<not> g 0" "\<not> g 1"
  shows "user_id a \<noteq> user_id b
     \<and> connection_requests d1
         = connection_requests d
           @ [\<lparr>cr_id = rid, from_user_id = user_id a, to_user_id = user_id b,
               cr_status = pending\<rparr>]
     \<and> (\<exists>c\<in>{''Already connected'', ''Request already exists''}.
           sendRequest g d2 a rid2 (Some (user_id b)) = (Failure 400 (Detail c), d2))
     \<and> (\<exists>c\<in>{''Already connected'', ''Request already exists''}.
           sendRequest g d2 b rid2 (Some (user_id a)) = (Failure 400 (Detail c), d2))
     \<and> (\<exists>s c. sendRequest h d2 a rid2 (Some (user_id b)) = (Failure s c, d2))
     \<and> (\<exists>s c. sendRequest h d2 b rid2 (Some (user_id a)) = (Failure s c, d2))"
proof -
  note first = sendRequest_success[OF ok]
  have ne: "user_id a \<noteq> user_id b" using first(2) by simp
  have e1: "existing_request d2 (user_id a) (user_id b) \<noteq> []"
    using still(1-3) by (rule existing_request_nonempty)
  then have e2: "existing_request d2 (user_id b) (user_id a) \<noteq> []"
    by (simp add: existing_request_sym)
  have ab: "\<exists>c\<in>{''Already connected'', ''Request already exists''}.
           sendRequest g d2 a rid2 (Some (user_id b)) = (Failure 400 (Detail c), d2)"
    using sendRequest_conflict_400[OF e1 first(1) first(2) store, of rid2] by simp
  have ba: "\<exists>c\<in>{''Already connected'', ''Request already exists''}.
           sendRequest g d2 b rid2 (Some (user_id a)) = (Failure 400 (Detail c), d2)"
    using sendRequest_conflict_400[OF e2 id ne store, of rid2] by simp
  have ab': "\<exists>s c. sendRequest h d2 a rid2 (Some (user_id b)) = (Failure s c, d2)"
    using e1 first(1) first(2) by (rule sendRequest_conflict_unchanged)
  have ba': "\<exists>s c. sendRequest h d2 b rid2 (Some (user_id a)) = (Failure s c, d2)"
    using e2 id ne by (rule sendRequest_conflict_unchanged)
  from ne first(5) ab ba ab' ba' show ?thesis by (intro conjI)
qed

lemma ex_sendRequest:
  "sendRequest no_faults ex_db ex_ann ''r1'' (Some ''b2'')
     = (Success ''Connection request sent'', ex_db_requested)"
  by (simp add: sendRequest_def no_faults_def existing_connection_def existing_request_def
        insert_connection_request_def insert_notifications_def
        connection_request_notification_def ex_defs)

theorem sendRequest_no_duplicate_request_witness:
  "sendRequest no_faults ex_db ex_ann ''r1'' (Some (user_id ex_bob))
     = (Success ''Connection request sent'', ex_db_requested)
   \<and> user_id ex_ann \<noteq> []
   \<and> ex_request pending \<in> set (connection_requests ex_db_requested)
   \<and> from_user_id (ex_request pending) = user_id ex_ann
   \<and> to_user_id (ex_request pending) = user_id ex_bob
   \<and> cr_status (ex_request pending) = pending
   \<and> \<not> no_faults 0 \<and> \<not> no_faults 1
   \<and> (\<exists>c\<in>{''Already connected'', ''Request already exists''}.
         sendRequest no_faults ex_db_requested ex_ann ''r2'' (Some (user_id ex_bob))
           = (Failure 400 (Detail c), ex_db_requested))
   \<and> (\<exists>c\<in>{''Already connected'', ''Request already exists''}.
         sendRequest no_faults ex_db_requested ex_bob ''r2'' (Some (user_id ex_ann))
           = (Failure 400 (Detail c), ex_db_requested))"
proof -
  have ok: "sendRequest no_faults ex_db ex_ann ''r1'' (Some (user_id ex_bob))
     = (Success ''Connection request sent'', ex_db_requested)"
    using ex_sendRequest by (simp add: ex_bob_def)
  have id: "user_id ex_ann \<noteq> []" by (simp add: ex_ann_def)
  have still: "ex_request pending \<in> set (connection_requests ex_db_requested)"
    "from_user_id (ex_request pending) = user_id ex_ann"
    "to_user_id (ex_request pending) = user_id ex_bob"
    "cr_status (ex_request pending) = pending"
    by (simp_all add: ex_defs)
  have store: "\<not> no_faults 0" "\<not> no_faults 1" by (simp_all add: no_faults_def)
  note t = sendRequest_no_duplicate_request[OF ok id still store, of "''r2''"]
  from ok id still store t show ?thesis by (intro conjI) blast+
qed

text \<open>
  C3: the specification has \<^verbatim>\<open>sendRequest\<close> run its checks and both inserts in one
  transaction, so that a failing notification insert leaves nothing behind. The handler
  sends each statement through \<^verbatim>\<open>query\<close>; when the fourth statement (the notification
  insert) fails, the caller gets 500 and the pending request stays committed, without
  its notification.
\<close>

theorem sendRequest_partial_state:
  "sendRequest (\<lambda>k. k = 3) ex_db ex_ann ''r1'' (Some ''b2'')
     = (Failure 500 (Detail ''Failed to send request''),
        ex_db\<lparr>connection_requests := [ex_request pending]\<rparr>)"
  by (simp add: sendRequest_def existing_connection_def existing_request_def
        insert_connection_request_def ex_defs)

subsection \<open>Accepting a request\<close>

lemma filter_key_unique:
  "distinct (map f xs) \<Longrightarrow> x \<in> set xs \<Longrightarrow> filter (\<lambda>u. f u = f x) xs = [x]"
proof (induction xs)
  case Nil
  then show ?case by simp
next
  case (Cons y ys)
  show ?case
  proof (cases "y = x")
    case True
    with Cons.prems have "f x \<notin> f ` set ys" by simp
    then have "filter (\<lambda>u. f u = f x) ys = []"
      unfolding filter_empty_conv by (metis imageI)
    with True show ?thesis by simp
  next
    case False
    with Cons.prems have "x \<in> set ys" "f y \<noteq> f x" by auto
    with Cons show ?thesis by simp
  qed
qed

lemma authenticate_Some:
  "authenticate d uid = Some u \<Longrightarrow> u \<in> set (users d) \<and> user_id u = uid \<and> is_active u"
proof -
  assume a: "authenticate d uid = Some u"
  then obtain rest where "filter (\<lambda>u. user_id u = uid \<and> is_active u) (users d) = u # rest"
    by (auto simp: authenticate_def split: list.splits)
  then have "u \<in> set (filter (\<lambda>u. user_id u = uid \<and> is_active u) (users d))" by simp
  then show ?thesis by simp
qed


lemma acceptRequest_callback_Inr:
  assumes "acceptRequest_callback fails actor connId rid d = Inr (x, d')"
  shows "\<exists>req rest.
           filter (\<lambda>r. cr_id r = rid \<and> to_user_id r = user_id actor \<and> cr_status r = pending)
             (connection_requests d) = req # rest
         \<and> d' = d\<lparr>connection_requests :=
                     map (\<lambda>r. if cr_id r = rid then r\<lparr>cr_status := accepted\<rparr> else r)
                       (connection_requests d),
                   connections := connections d
                     @ [\<lparr>conn_id = connId, conn_user_id = from_user_id req,
                         connected_user_id = to_user_id req\<rparr>],
                   notifications := notifications d
                     @ map (connection_accepted_notification (from_user_id req))
                         (filter (\<lambda>u. user_id u = user_id actor) (users d))\<rparr>"
  using assms
  by (auto simp: acceptRequest_callback_def insert_connection_def insert_notifications_def Let_def
      split: if_splits list.splits sum.splits)

lemma no_pending_after_accept:
  "filter (\<lambda>r. cr_id r = rid \<and> to_user_id r = uid \<and> cr_status r = pending)
     (map (\<lambda>r. if cr_id r = rid then r\<lparr>cr_status := accepted\<rparr> else r) rs) = []"
  by (induction rs) auto

lemma acceptRequest_failure:
  assumes "acceptRequest fails d actor connId rid = (Failure s c, d')"
  shows "d' = d \<and> s = 400"
  using assms
  by (auto simp: acceptRequest_def transaction_def split: sum.splits prod.splits)

lemma acceptRequest_success:
  assumes "acceptRequest fails d actor connId rid = (Success m, d')"
  shows "\<exists>x. acceptRequest_callback fails actor connId rid d = Inr (x, d')"
  using assms
  by (auto simp: acceptRequest_def transaction_def split: sum.splits prod.splits)

lemma acceptRequest_not_found:
  assumes "filter (\<lambda>r. cr_id r = rid \<and> to_user_id r = user_id actor \<and> cr_status r = pending)
             (connection_requests d) = []"
  shows "\<exists>c. acceptRequest g d actor connId rid = (Failure 400 c, d)"
    and "\<not> g 0 \<Longrightarrow> acceptRequest g d actor connId rid
           = (Failure 400 (Detail ''Request not found or already processed''), d)"
  using assms
  by (simp_all add: acceptRequest_def transaction_def acceptRequest_callback_def error_detail_def)

text \<open>
  C1: \<^verbatim>\<open>acceptRequest\<close> succeeds only if a request with the given id is stored with status
  pending and addressed to the actor. On success every row with that id has status
  accepted, exactly one connection row (sender, actor) is appended, exactly one
  notification row is appended, addressed to the sender of the request and carrying the
  actor's name and avatar, and nothing else changes; a refused accept leaves the
  database as it was and is answered 400 (the transaction is rolled back). A second
  accept of the same request is answered 400 and changes nothing; when the store answers
  its query, the detail is \<^verbatim>\<open>Request not found or already processed\<close>. The actor is the
  user that \<^verbatim>\<open>authenticate\<close> loaded, and user ids are a primary key.
\<close>

theorem acceptRequest_single_fire:
  assumes pk: "distinct (map user_id (users d))"
      and auth: "authenticate d (user_id actor) = Some actor"
      and run: "acceptRequest fails d actor connId rid = (rep, d')"
  shows "((\<exists>m. rep = Success m) \<longrightarrow>
            (\<exists>r\<in>set (connection_requests d).
                cr_id r = rid \<and> to_user_id r = user_id actor \<and> cr_status r = pending
              \<and> connection_requests d'
                  = map (\<lambda>x. if cr_id x = rid then x\<lparr>cr_status := accepted\<rparr> else x)
                      (connection_requests d)
              \<and> connections d'
                  = connections d
                    @ [\<lparr>conn_id = connId, conn_user_id = from_user_id r,
                        connected_user_id = user_id actor\<rparr>]
              \<and> notifications d'
                  = notifications d
                    @ [\<lparr>n_user_id = from_user_id r, n_type = ''connection_accepted'',
                        n_title = ''Connection Accepted'',
                        n_message = name actor @ '' accepted your connection request'',
                        n_avatar = avatar actor, n_action_url = Some ''/connections'',
                        n_related_id = None, is_read = False\<rparr>]
              \<and> users d' = users d \<and> universities d' = universities d
              \<and> mentors d' = mentors d \<and> mentorship_requests d' = mentorship_requests d)
          \<and> (\<exists>c. acceptRequest g d' actor connId2 rid = (Failure 400 c, d'))
          \<and> (\<not> g 0 \<longrightarrow> acceptRequest g d' actor connId2 rid
                = (Failure 400 (Detail ''Request not found or already processed''), d')))
       \<and> ((\<forall>m. rep \<noteq> Success m) \<longrightarrow> d' = d \<and> (\<exists>c. rep = Failure 400 c))"
proof (intro conjI impI)
  assume "\<exists>m. rep = Success m"
  then obtain m where m: "rep = Success m" ..
  from acceptRequest_success[OF run[unfolded m]]
  obtain x where cb: "acceptRequest_callback fails actor connId rid d = Inr (x, d')" ..
  from acceptRequest_callback_Inr[OF cb] obtain req rest where
    sel: "filter (\<lambda>r. cr_id r = rid \<and> to_user_id r = user_id actor \<and> cr_status r = pending)
             (connection_requests d) = req # rest"
    and d': "d' = d\<lparr>connection_requests :=
                     map (\<lambda>r. if cr_id r = rid then r\<lparr>cr_status := accepted\<rparr> else r)
                       (connection_requests d),
                   connections := connections d
                     @ [\<lparr>conn_id = connId, conn_user_id = from_user_id req,
                         connected_user_id = to_user_id req\<rparr>],
                   notifications := notifications d
                     @ map (connection_accepted_notification (from_user_id req))
                         (filter (\<lambda>u. user_id u = user_id actor) (users d))\<rparr>"
    by blast
  from sel have "req \<in> set (filter (\<lambda>r. cr_id r = rid \<and> to_user_id r = user_id actor
      \<and> cr_status r = pending) (connection_requests d))" by simp
  then have req: "req \<in> set (connection_requests d)" "cr_id req = rid"
    "to_user_id req = user_id actor" "cr_status req = pending" by simp_all
  have "actor \<in> set (users d)" using authenticate_Some[OF auth] by simp
  with pk have one: "filter (\<lambda>u. user_id u = user_id actor) (users d) = [actor]"
    by (rule filter_key_unique)
  show "\<exists>r\<in>set (connection_requests d).
                cr_id r = rid \<and> to_user_id r = user_id actor \<and> cr_status r = pending
              \<and> connection_requests d'
                  = map (\<lambda>x. if cr_id x = rid then x\<lparr>cr_status := accepted\<rparr> else x)
                      (connection_requests d)
              \<and> connections d'
                  = connections d
                    @ [\<lparr>conn_id = connId, conn_user_id = from_user_id r,
                        connected_user_id = user_id actor\<rparr>]
              \<and> notifications d'
                  = notifications d
                    @ [\<lparr>n_user_id = from_user_id r, n_type = ''connection_accepted'',
                        n_title = ''Connection Accepted'',
                        n_message = name actor @ '' accepted your connection request'',
                        n_avatar = avatar actor, n_action_url = Some ''/connections'',
                        n_related_id = None, is_read = False\<rparr>]
              \<and> users d' = users d \<and> universities d' = universities d
              \<and> mentors d' = mentors d \<and> mentorship_requests d' = mentorship_requests d"
    using req one d'
    by (intro bexI[of _ req]) (simp_all add: connection_accepted_notification_def)
  have none: "filter (\<lambda>r. cr_id r = rid \<and> to_user_id r = user_id actor \<and> cr_status r = pending)
             (connection_requests d') = []"
    unfolding d' by (simp add: no_pending_after_accept)
  show "\<exists>c. acceptRequest g d' actor connId2 rid = (Failure 400 c, d')"
    using none by (rule acceptRequest_not_found(1))
  show "acceptRequest g d' actor connId2 rid
          = (Failure 400 (Detail ''Request not found or already processed''), d')" if "\<not> g 0"
    using none that by (rule acceptRequest_not_found(2))
next
  assume no: "\<forall>m. rep \<noteq> Success m"
  then obtain s c where f: "rep = Failure s c" by (cases rep) auto
  note un = acceptRequest_failure[OF run[unfolded f]]
  show "d' = d" using un by simp
  show "\<exists>c. rep = Failure 400 c" using un f by simp
qed

lemma ex_acceptRequest:
  "acceptRequest no_faults ex_db_requested ex_bob ''c1'' ''r1''
     = (Success ''Request accepted'', ex_db_connected)"
  by (simp add: acceptRequest_def transaction_def acceptRequest_callback_def no_faults_def
        insert_connection_def insert_notifications_def connection_accepted_notification_def
        connection_request_notification_def ex_defs)

theorem acceptRequest_single_fire_witness:
  "distinct (map user_id (users ex_db_requested))
   \<and> authenticate ex_db_requested (user_id ex_bob) = Some ex_bob
   \<and> acceptRequest no_faults ex_db_requested ex_bob ''c1'' ''r1''
       = (Success ''Request accepted'', ex_db_connected)
   \<and> connections ex_db_connected = connections ex_db_requested @ [ex_connection]
   \<and> notifications ex_db_connected
       = notifications ex_db_requested
         @ [\<lparr>n_user_id = ''a1'', n_type = ''connection_accepted'',
             n_title = ''Connection Accepted'',
             n_message = ''Bob accepted your connection request'',
             n_avatar = None, n_action_url = Some ''/connections'',
             n_related_id = None, is_read = False\<rparr>]
   \<and> \<not> no_faults 0
   \<and> acceptRequest no_faults ex_db_connected ex_bob ''c2'' ''r1''
       = (Failure 400 (Detail ''Request not found or already processed''), ex_db_connected)
   \<and> distinct (map user_id (users ex_db))
   \<and> authenticate ex_db (user_id ex_bob) = Some ex_bob
   \<and> acceptRequest no_faults ex_db ex_bob ''c1'' ''r1''
       = (Failure 400 (Detail ''Request not found or already processed''), ex_db)"
proof -
  have pk: "distinct (map user_id (users ex_db_requested))" by (simp add: ex_defs)
  have auth: "authenticate ex_db_requested (user_id ex_bob) = Some ex_bob"
    by (simp add: authenticate_def ex_defs)
  note run = ex_acceptRequest
  have nf: "\<not> no_faults 0" by (simp add: no_faults_def)
  note t = acceptRequest_single_fire[OF pk auth run, of no_faults "''c2''"]
  have again: "acceptRequest no_faults ex_db_connected ex_bob ''c2'' ''r1''
       = (Failure 400 (Detail ''Request not found or already processed''), ex_db_connected)"
    using t nf by blast
  have rows: "connections ex_db_connected = connections ex_db_requested @ [ex_connection]"
    "notifications ex_db_connected
       = notifications ex_db_requested
         @ [\<lparr>n_user_id = ''a1'', n_type = ''connection_accepted'',
             n_title = ''Connection Accepted'',
             n_message = ''Bob accepted your connection request'',
             n_avatar = None, n_action_url = Some ''/connections'',
             n_related_id = None, is_read = False\<rparr>]"
    by (simp_all add: connection_accepted_notification_def ex_defs)
  have pk0: "distinct (map user_id (users ex_db))" by (simp add: ex_defs)
  have auth0: "authenticate ex_db (user_id ex_bob) = Some ex_bob"
    by (simp add: authenticate_def ex_defs)
  have run0: "acceptRequest no_faults ex_db ex_bob ''c1'' ''r1''
       = (Failure 400 (Detail ''Request not found or already processed''), ex_db)"
    by (simp add: acceptRequest_def transaction_def acceptRequest_callback_def no_faults_def
          error_detail_def ex_defs)
  from pk auth run rows nf again pk0 auth0 run0 show ?thesis by (intro conjI)
qed

subsection \<open>Symmetry of connections\<close>

text \<open>The handler of \<^verbatim>\<open>POST /connections/request\<close> is its checks followed by its inserts;
  each of the four statements is committed on its own.\<close>

lemma sendRequest_phases:
  "sendRequest fails d actor rid target =
     (case sendRequest_checks fails d actor target of
        Inl r \<Rightarrow> (r, d)
      | Inr t \<Rightarrow> sendRequest_inserts fails d actor rid t)"
  by (simp add: sendRequest_def sendRequest_checks_def sendRequest_inserts_def Let_def
        split: option.splits sum.splits)

lemma ex_checks_ann:
  "sendRequest_checks no_faults ex_db ex_ann (Some ''b2'') = Inr ''b2''"
  by (simp add: sendRequest_checks_def no_faults_def existing_connection_def
        existing_request_def ex_defs)

lemma ex_checks_bob:
  "sendRequest_checks no_faults ex_db ex_bob (Some ''a1'') = Inr ''a1''"
  by (simp add: sendRequest_checks_def no_faults_def existing_connection_def
        existing_request_def ex_defs)

lemma ex_inserts_ann:
  "sendRequest_inserts no_faults ex_db ex_ann ''r1'' ''b2''
     = (Success ''Connection request sent'', ex_db_requested)"
  by (simp add: sendRequest_inserts_def no_faults_def insert_connection_request_def
        insert_notifications_def connection_request_notification_def ex_defs)

lemma ex_inserts_bob:
  "sendRequest_inserts no_faults ex_db_requested ex_bob ''r2'' ''a1''
     = (Success ''Connection request sent'', ex_db_crossed)"
  by (simp add: sendRequest_inserts_def no_faults_def insert_connection_request_def
        insert_notifications_def connection_request_notification_def ex_defs)

lemma ex_accept_bob:
  "acceptRequest no_faults ex_db_crossed ex_bob ''c1'' ''r1''
     = (Success ''Request accepted'', ex_db_crossed_accepted)"
  by (simp add: acceptRequest_def transaction_def acceptRequest_callback_def no_faults_def
        insert_connection_def insert_notifications_def connection_accepted_notification_def
        connection_request_notification_def ex_defs)

lemma ex_accept_ann:
  "acceptRequest no_faults ex_db_crossed_accepted ex_ann ''c2'' ''r2''
     = (Success ''Request accepted'', ex_db_twice_connected)"
  by (simp add: acceptRequest_def transaction_def acceptRequest_callback_def no_faults_def
        insert_connection_def insert_notifications_def connection_accepted_notification_def
        connection_request_notification_def ex_defs)

text \<open>
  C4: a connection is symmetric, and one Connection row represents it for both users.
  The code does not keep it to one row. \<^verbatim>\<open>sendRequest\<close> runs its two checks and its two
  inserts as separately committed statements, and the constraint
  \<^verbatim>\<open>UNIQUE(from_user_id, to_user_id)\<close> is ordered. When Ann and Bob ask each other at the
  same moment, both pass the checks on the same state, both inserts are accepted, and
  each then accepts the request addressed to them: every step answers with success, both
  read connected, and the \<^verbatim>\<open>connections\<close> table holds two rows for the one pair.
\<close>

theorem opposite_sends_leave_two_connection_rows:
  "sendRequest_checks no_faults ex_db ex_ann (Some ''b2'') = Inr ''b2''
   \<and> sendRequest_checks no_faults ex_db ex_bob (Some ''a1'') = Inr ''a1''
   \<and> sendRequest_inserts no_faults ex_db ex_ann ''r1'' ''b2''
       = (Success ''Connection request sent'', ex_db_requested)
   \<and> sendRequest_inserts no_faults ex_db_requested ex_bob ''r2'' ''a1''
       = (Success ''Connection request sent'', ex_db_crossed)
   \<and> acceptRequest no_faults ex_db_crossed ex_bob ''c1'' ''r1''
       = (Success ''Request accepted'', ex_db_crossed_accepted)
   \<and> acceptRequest no_faults ex_db_crossed_accepted ex_ann ''c2'' ''r2''
       = (Success ''Request accepted'', ex_db_twice_connected)
   \<and> connections ex_db_twice_connected
       = [\<lparr>conn_id = ''c1'', conn_user_id = ''a1'', connected_user_id = ''b2''\<rparr>,
          \<lparr>conn_id = ''c2'', conn_user_id = ''b2'', connected_user_id = ''a1''\<rparr>]
   \<and> checkStatus no_faults (\<lambda>i. i) ex_db_twice_connected ex_ann ''b2''
       = Success \<lparr>is_connected = True, request_status = None\<rparr>
   \<and> checkStatus no_faults (\<lambda>i. i) ex_db_twice_connected ex_bob ''a1''
       = Success \<lparr>is_connected = True, request_status = None\<rparr>"
proof -
  have rows: "connections ex_db_twice_connected
       = [\<lparr>conn_id = ''c1'', conn_user_id = ''a1'', connected_user_id = ''b2''\<rparr>,
          \<lparr>conn_id = ''c2'', conn_user_id = ''b2'', connected_user_id = ''a1''\<rparr>]"
    by (simp add: ex_defs)
  have ann: "checkStatus no_faults (\<lambda>i. i) ex_db_twice_connected ex_ann ''b2''
       = Success \<lparr>is_connected = True, request_status = None\<rparr>"
    by (simp add: checkStatus_def no_faults_def existing_connection_def ex_defs)
  have bob: "checkStatus no_faults (\<lambda>i. i) ex_db_twice_connected ex_bob ''a1''
       = Success \<lparr>is_connected = True, request_status = None\<rparr>"
    by (simp add: checkStatus_def no_faults_def existing_connection_def ex_defs)
  show ?thesis
    by (intro conjI ex_checks_ann ex_checks_bob ex_inserts_ann ex_inserts_bob
          ex_accept_bob ex_accept_ann rows ann bob)
qed

subsection \<open>Listing suggestions and mentors\<close>

lemma set_order_by_random: "set (order_by_random rnd rows) = set rows"
proof -
  let ?zs = "zip (map rnd [0..<length rows]) rows"
  have z: "map snd ?zs = rows" by (rule map_snd_zip) simp
  have "set (order_by_random rnd rows) = snd ` set ?zs"
    by (simp add: order_by_random_def)
  also have "\<dots> = set (map snd ?zs)" by (simp only: set_map)
  finally show ?thesis by (simp only: z)
qed

lemma left_join_university_fst:
  "row \<in> set (left_join_university d u) \<Longrightarrow> fst row = u"
  by (auto simp: left_join_university_def split: list.splits)

lemma scalar_university_id_of_actor:
  assumes "authenticate d (user_id actor) = Some actor"
      and "scalar_university_id d (user_id actor) = Inr uni"
  shows "uni = university_id actor"
proof (cases "filter (\<lambda>u. user_id u = user_id actor) (users d)")
  case Nil
  moreover from authenticate_Some[OF assms(1)] have
    "actor \<in> set (filter (\<lambda>u. user_id u = user_id actor) (users d))" by simp
  ultimately show ?thesis by simp
next
  case (Cons u rest)
  with assms(2) have rest: "rest = []" and uni: "uni = university_id u"
    by (auto simp: scalar_university_id_def split: list.splits)
  from authenticate_Some[OF assms(1)] have
    "actor \<in> set (filter (\<lambda>u. user_id u = user_id actor) (users d))" by simp
  with Cons rest have "actor = u" by simp
  with uni show ?thesis by simp
qed

lemma listSuggestions_rows:
  assumes "listSuggestions fails rnd d actor limit = Success xs" "s \<in> set xs"
  shows "\<exists>uni u. scalar_university_id d (user_id actor) = Inr uni
           \<and> u \<in> set (users d) \<and> suggestion_filter d (user_id actor) uni u
           \<and> sug_user_id s = user_id u"
proof -
  from assms(1) obtain uni n where uni: "scalar_university_id d (user_id actor) = Inr uni"
    and xs: "xs = map to_suggestion (take n (order_by_random rnd
               (concat (map (left_join_university d)
                  (filter (suggestion_filter d (user_id actor) uni) (users d))))))"
    by (auto simp: listSuggestions_def Let_def split: if_splits sum.splits)
  from assms(2) xs obtain row where row: "s = to_suggestion row"
    "row \<in> set (take n (order_by_random rnd
               (concat (map (left_join_university d)
                  (filter (suggestion_filter d (user_id actor) uni) (users d))))))"
    by auto
  from row(2) have "row \<in> set (order_by_random rnd
               (concat (map (left_join_university d)
                  (filter (suggestion_filter d (user_id actor) uni) (users d)))))"
    by (rule in_set_takeD)
  then have "row \<in> set (concat (map (left_join_university d)
                  (filter (suggestion_filter d (user_id actor) uni) (users d))))"
    by (simp only: set_order_by_random)
  then obtain u where u: "u \<in> set (users d)" "suggestion_filter d (user_id actor) uni u"
    "row \<in> set (left_join_university d u)" by auto
  from left_join_university_fst[OF u(3)] row(1) have "sug_user_id s = user_id u"
    by (simp add: to_suggestion_def)
  with uni u show ?thesis by blast
qed

lemma mentors_join_users_mem:
  "(m, u) \<in> set (mentors_join_users d) \<longleftrightarrow>
     m \<in> set (mentors d) \<and> u \<in> set (users d) \<and> mentor_user_id m = user_id u"
  by (auto simp: mentors_join_users_def)

lemma listMentors_items:
  assumes "listMentors fails ilike score d actor f = Success p" "i \<in> set (page_mentors p)"
  shows "\<exists>m u. m \<in> set (mentors d) \<and> u \<in> set (users d) \<and> mentor_user_id m = user_id u
           \<and> mentor_where ilike actor f (m, u)
           \<and> mi_user_id i = user_id u \<and> mi_id i = mentor_id m"
proof -
  let ?rows = "filter (mentor_where ilike actor f) (mentors_join_users d)"
  from assms(1) obtain a b where
    p: "page_mentors p = map (to_mentor_item score)
          (zip [0..<length (take a (drop b (sort_key (\<lambda>row. - years_experience (fst row)) ?rows)))]
               (take a (drop b (sort_key (\<lambda>row. - years_experience (fst row)) ?rows))))"
    by (auto simp: listMentors_def Let_def split: if_splits)
  from assms(2) p obtain k m u where
    kmu: "i = to_mentor_item score (k, m, u)"
      "(k, m, u) \<in> set (zip [0..<length (take a (drop b (sort_key (\<lambda>row. - years_experience (fst row)) ?rows)))]
               (take a (drop b (sort_key (\<lambda>row. - years_experience (fst row)) ?rows))))"
    by auto
  from kmu(2) have "(m, u) \<in> set (take a (drop b (sort_key (\<lambda>row. - years_experience (fst row)) ?rows)))"
    by (rule set_zip_rightD)
  then have "(m, u) \<in> set (drop b (sort_key (\<lambda>row. - years_experience (fst row)) ?rows))"
    by (rule in_set_takeD)
  then have "(m, u) \<in> set (sort_key (\<lambda>row. - years_experience (fst row)) ?rows)"
    by (rule in_set_dropD)
  then have "(m, u) \<in> set ?rows" by simp
  then have "mentor_where ilike actor f (m, u)" "(m, u) \<in> set (mentors_join_users d)"
    by simp_all
  with kmu(1) show ?thesis
    by (auto simp: mentors_join_users_mem to_mentor_item_def)
qed

text \<open>
  C10: every entry that \<^verbatim>\<open>listSuggestions\<close> returns carries the id of exactly one stored
  user, and that user is active, has role alumni and is not the actor. So an admin, a
  superadmin or a deactivated user is never suggested, whatever university they belong
  to and whether or not they are connected to the actor.
\<close>

theorem listSuggestions_active_alumni:
  assumes pk: "distinct (map user_id (users d))"
      and run: "listSuggestions fails rnd d actor limit = Success xs"
      and s: "s \<in> set xs"
  shows "\<exists>u\<in>set (users d). user_id u = sug_user_id s \<and> is_active u \<and> user_role u = alumni
            \<and> user_id u \<noteq> user_id actor
            \<and> (\<forall>v\<in>set (users d). user_id v = sug_user_id s \<longrightarrow> v = u)"
proof -
  from listSuggestions_rows[OF run s] obtain uni u where
    u: "u \<in> set (users d)" "suggestion_filter d (user_id actor) uni u"
       "sug_user_id s = user_id u" by blast
  from u(2) have props: "is_active u" "user_role u = alumni" "user_id u \<noteq> user_id actor"
    by (simp_all add: suggestion_filter_def)
  have only: "\<forall>v\<in>set (users d). user_id v = sug_user_id s \<longrightarrow> v = u"
  proof (intro ballI impI)
    fix v assume "v \<in> set (users d)" "user_id v = sug_user_id s"
    then have "user_id v = user_id u" using u(3) by simp
    with pk \<open>v \<in> set (users d)\<close> u(1) show "v = u"
      by (rule distinct_key_eq[of user_id "users d"])
  qed
  from u(3) props only have
    "user_id u = sug_user_id s \<and> is_active u \<and> user_role u = alumni
       \<and> user_id u \<noteq> user_id actor
       \<and> (\<forall>v\<in>set (users d). user_id v = sug_user_id s \<longrightarrow> v = u)"
    by (intro conjI) (rule sym, assumption+)
  with u(1) show ?thesis by (rule rev_bexI)
qed

text \<open>
  C7, amended: for an authenticated actor, \<^verbatim>\<open>listSuggestions\<close> only returns users whose
  \<open>university_id\<close> is the actor's, and nobody when the actor has none. \<^verbatim>\<open>listMentors\<close>
  only returns mentors whose user has the actor's \<open>university_id\<close> when the actor has a
  (non-empty) one. For an actor without a university (the superadmin, or an alumnus
  registered without one) \<^verbatim>\<open>listMentors\<close> applies no tenant condition at all: whether a
  row is returned does not depend on the university of the mentor's user, and nothing
  has to be requested for that.
\<close>

theorem tenant_scope_of_listings:
  assumes pk: "distinct (map user_id (users d))"
      and auth: "authenticate d (user_id actor) = Some actor"
  shows "(\<forall>xs s v. listSuggestions fails rnd d actor limit = Success xs \<longrightarrow> s \<in> set xs \<longrightarrow>
            v \<in> set (users d) \<longrightarrow> user_id v = sug_user_id s \<longrightarrow>
            university_id v = university_id actor \<and> university_id actor \<noteq> None)
       \<and> (truthy (university_id actor) \<longrightarrow>
            (\<forall>p i v. listMentors fails ilike score d actor f = Success p \<longrightarrow>
               i \<in> set (page_mentors p) \<longrightarrow> v \<in> set (users d) \<longrightarrow> user_id v = mi_user_id i \<longrightarrow>
               university_id v = university_id actor))
       \<and> (\<not> truthy (university_id actor) \<longrightarrow>
            (\<forall>m u x. mentor_where ilike actor f (m, u\<lparr>university_id := x\<rparr>)
                       = mentor_where ilike actor f (m, u)))"
proof (intro conjI allI impI)
  fix xs s v
  assume run: "listSuggestions fails rnd d actor limit = Success xs" and s: "s \<in> set xs"
    and v: "v \<in> set (users d)" "user_id v = sug_user_id s"
  from listSuggestions_rows[OF run s] obtain uni u where
    uni: "scalar_university_id d (user_id actor) = Inr uni"
    and u: "u \<in> set (users d)" "suggestion_filter d (user_id actor) uni u"
       "sug_user_id s = user_id u" by blast
  have "uni = university_id actor" using auth uni by (rule scalar_university_id_of_actor)
  with u(2) have tenant: "university_id u = university_id actor" "university_id actor \<noteq> None"
    by (auto simp: suggestion_filter_def split: option.splits)
  have "v = u" using pk v(1) u(1)
    by (rule distinct_key_eq[of user_id "users d"]) (simp add: v(2) u(3))
  with tenant show "university_id v = university_id actor" "university_id actor \<noteq> None"
    by simp_all
next
  fix p i v
  assume t: "truthy (university_id actor)"
    and run: "listMentors fails ilike score d actor f = Success p"
    and i: "i \<in> set (page_mentors p)"
    and v: "v \<in> set (users d)" "user_id v = mi_user_id i"
  from listMentors_items[OF run i] obtain m u where
    u: "u \<in> set (users d)" "mentor_where ilike actor f (m, u)" "mi_user_id i = user_id u"
    by blast
  from u(2) t have tenant: "university_id u = university_id actor"
    by (simp add: mentor_where_def)
  have "v = u" using pk v(1) u(1)
    by (rule distinct_key_eq[of user_id "users d"]) (simp add: v(2) u(3))
  with tenant show "university_id v = university_id actor" by simp
next
  fix m u x
  assume "\<not> truthy (university_id actor)"
  then show "mentor_where ilike actor f (m, u\<lparr>university_id := x\<rparr>)
               = mentor_where ilike actor f (m, u)"
    unfolding mentor_where_def fst_conv snd_conv by (simp split: option.splits)
qed

lemma ex_listMentors_root:
  "listMentors no_faults (\<lambda>t p. False) (\<lambda>i. 85) ex_db_mentors ex_root no_filters
     = Success \<lparr>page_mentors = [ex_item_bob, ex_item_dan], page_total = 2\<rparr>"
  by (simp add: listMentors_def no_faults_def mentors_join_users_def mentor_where_def truthy_def
       to_mentor_item_def ex_mentor_defs)

lemma ex_listMentors_cat:
  "listMentors no_faults (\<lambda>t p. False) (\<lambda>i. 85) ex_db_mentors ex_cat no_filters
     = Success \<lparr>page_mentors = [ex_item_bob, ex_item_dan], page_total = 2\<rparr>"
  by (simp add: listMentors_def no_faults_def mentors_join_users_def mentor_where_def truthy_def
       to_mentor_item_def ex_mentor_defs)

lemma ex_authenticate_cat: "authenticate ex_db_mentors ''c3'' = Some ex_cat"
  by (simp add: authenticate_def ex_mentor_defs)

text \<open>
  C7, as the specification states it: alumni never see a mentor of another university,
  and a superadmin sees all tenants only where explicitly requested. With no filter at
  all, the superadmin gets the mentors of both universities; so does an alumna who
  registered without a university, whose own \<open>university_id\<close> (none) differs from that
  of every mentor returned.
\<close>

theorem listMentors_cross_tenant_counterexample:
  "user_role ex_root = superadmin
   \<and> listMentors no_faults (\<lambda>t p. False) (\<lambda>i. 85) ex_db_mentors ex_root no_filters
       = Success \<lparr>page_mentors = [ex_item_bob, ex_item_dan], page_total = 2\<rparr>
   \<and> user_role ex_cat = alumni \<and> university_id ex_cat = None
   \<and> authenticate ex_db_mentors ''c3'' = Some ex_cat
   \<and> listMentors no_faults (\<lambda>t p. False) (\<lambda>i. 85) ex_db_mentors ex_cat no_filters
       = Success \<lparr>page_mentors = [ex_item_bob, ex_item_dan], page_total = 2\<rparr>
   \<and> mi_user_id ex_item_bob = user_id ex_bob \<and> university_id ex_bob = Some ''mit''
   \<and> mi_user_id ex_item_dan = user_id ex_dan \<and> university_id ex_dan = Some ''oxford''"
proof -
  have "user_role ex_root = superadmin" "user_role ex_cat = alumni" "university_id ex_cat = None"
    "mi_user_id ex_item_bob = user_id ex_bob" "university_id ex_bob = Some ''mit''"
    "mi_user_id ex_item_dan = user_id ex_dan" "university_id ex_dan = Some ''oxford''"
    by (simp_all add: ex_root_def ex_cat_def ex_bob_def ex_dan_def ex_item_bob_def
          ex_item_dan_def)
  with ex_listMentors_root ex_listMentors_cat ex_authenticate_cat show ?thesis
    by (intro conjI)
qed

lemma ex_users_pk: "distinct (map user_id (users ex_db_mentors))"
  by (simp add: ex_mentor_defs)

lemma ex_authenticate_ann: "authenticate ex_db_mentors (user_id ex_ann) = Some ex_ann"
  by (simp add: authenticate_def ex_mentor_defs)

lemma ex_listSuggestions_ann:
  "listSuggestions no_faults (\<lambda>i. i) ex_db_mentors ex_ann None = Success [ex_suggestion_bob]"
  by (simp add: listSuggestions_def no_faults_def scalar_university_id_def
        suggestion_filter_def left_join_university_def order_by_random_def to_suggestion_def
        ex_mentor_defs)

lemma ex_listMentors_ann:
  "listMentors no_faults (\<lambda>t p. False) (\<lambda>i. 85) ex_db_mentors ex_ann no_filters
     = Success \<lparr>page_mentors = [ex_item_bob], page_total = 1\<rparr>"
  by (simp add: listMentors_def no_faults_def mentors_join_users_def mentor_where_def truthy_def
       to_mentor_item_def ex_mentor_defs)

theorem listSuggestions_active_alumni_witness:
  "distinct (map user_id (users ex_db_mentors))
   \<and> listSuggestions no_faults (\<lambda>i. i) ex_db_mentors ex_ann None = Success [ex_suggestion_bob]
   \<and> ex_suggestion_bob \<in> set [ex_suggestion_bob]
   \<and> ex_eve \<in> set (users ex_db_mentors) \<and> user_role ex_eve = admin
   \<and> university_id ex_eve = university_id ex_ann
   \<and> ex_fay \<in> set (users ex_db_mentors) \<and> \<not> is_active ex_fay
   \<and> university_id ex_fay = university_id ex_ann
   \<and> (\<exists>u\<in>set (users ex_db_mentors). user_id u = sug_user_id ex_suggestion_bob
         \<and> is_active u \<and> user_role u = alumni \<and> user_id u \<noteq> user_id ex_ann
         \<and> (\<forall>v\<in>set (users ex_db_mentors). user_id v = sug_user_id ex_suggestion_bob \<longrightarrow> v = u))"
proof -
  have s: "ex_suggestion_bob \<in> set [ex_suggestion_bob]" by simp
  have others: "ex_eve \<in> set (users ex_db_mentors)" "user_role ex_eve = admin"
    "university_id ex_eve = university_id ex_ann"
    "ex_fay \<in> set (users ex_db_mentors)" "\<not> is_active ex_fay"
    "university_id ex_fay = university_id ex_ann"
    by (simp_all add: ex_mentor_defs)
  note t = listSuggestions_active_alumni[OF ex_users_pk ex_listSuggestions_ann s]
  from ex_users_pk ex_listSuggestions_ann s others t show ?thesis by (intro conjI)
qed

theorem tenant_scope_of_listings_witness:
  "distinct (map user_id (users ex_db_mentors))
   \<and> authenticate ex_db_mentors (user_id ex_ann) = Some ex_ann
   \<and> listSuggestions no_faults (\<lambda>i. i) ex_db_mentors ex_ann None = Success [ex_suggestion_bob]
   \<and> ex_suggestion_bob \<in> set [ex_suggestion_bob]
   \<and> ex_bob \<in> set (users ex_db_mentors) \<and> user_id ex_bob = sug_user_id ex_suggestion_bob
   \<and> university_id ex_bob = university_id ex_ann
   \<and> truthy (university_id ex_ann)
   \<and> listMentors no_faults (\<lambda>t p. False) (\<lambda>i. 85) ex_db_mentors ex_ann no_filters
       = Success \<lparr>page_mentors = [ex_item_bob], page_total = 1\<rparr>
   \<and> ex_item_bob \<in> set (page_mentors \<lparr>page_mentors = [ex_item_bob], page_total = 1\<rparr>)
   \<and> user_id ex_bob = mi_user_id ex_item_bob
   \<and> authenticate ex_db_mentors (user_id ex_root) = Some ex_root
   \<and> \<not> truthy (university_id ex_root)
   \<and> mentor_where (\<lambda>t p. False) ex_root no_filters
         (ex_mentor_dan, ex_dan\<lparr>university_id := Some ''mit''\<rparr>)
       = mentor_where (\<lambda>t p. False) ex_root no_filters (ex_mentor_dan, ex_dan)"
proof -
  have s: "ex_suggestion_bob \<in> set [ex_suggestion_bob]" by simp
  have bob: "ex_bob \<in> set (users ex_db_mentors)" "user_id ex_bob = sug_user_id ex_suggestion_bob"
    "user_id ex_bob = mi_user_id ex_item_bob"
    by (simp_all add: ex_mentor_defs)
  have tr: "truthy (university_id ex_ann)" by (simp add: truthy_def ex_ann_def)
  have i: "ex_item_bob \<in> set (page_mentors \<lparr>page_mentors = [ex_item_bob], page_total = 1\<rparr>)"
    by simp
  note t = tenant_scope_of_listings[OF ex_users_pk ex_authenticate_ann,
      of no_faults "\<lambda>i. i" None "\<lambda>t p. False" "\<lambda>i. 85" no_filters]
  from t ex_listSuggestions_ann s bob(1,2)
  have same: "university_id ex_bob = university_id ex_ann" by blast
  have root: "authenticate ex_db_mentors (user_id ex_root) = Some ex_root"
    by (simp add: authenticate_def ex_mentor_defs)
  have nt: "\<not> truthy (university_id ex_root)" by (simp add: truthy_def ex_root_def)
  note t2 = tenant_scope_of_listings[OF ex_users_pk root,
      of no_faults "\<lambda>i. i" None "\<lambda>t p. False" "\<lambda>i. 85" no_filters]
  from t2 nt have free: "mentor_where (\<lambda>t p. False) ex_root no_filters
         (ex_mentor_dan, ex_dan\<lparr>university_id := Some ''mit''\<rparr>)
       = mentor_where (\<lambda>t p. False) ex_root no_filters (ex_mentor_dan, ex_dan)" by blast
  from ex_users_pk ex_authenticate_ann ex_listSuggestions_ann s bob same tr ex_listMentors_ann
    i root nt free
  show ?thesis by (intro conjI)
qed

subsection \<open>The mentee counter\<close>

















subsection \<open>Login\<close>

lemma filter_single_list_ex:
  "filter P xs = [u] \<Longrightarrow> list_ex (\<lambda>x. P x \<and> Q x) xs \<longleftrightarrow> Q u"
proof -
  assume a: "filter P xs = [u]"
  have "list_ex (\<lambda>x. P x \<and> Q x) xs \<longleftrightarrow> (\<exists>x\<in>set (filter P xs). Q x)"
    by (auto simp: list_ex_iff)
  with a show ?thesis by simp
qed

lemma filter_empty_list_ex:
  "filter P xs = [] \<Longrightarrow> \<not> list_ex (\<lambda>x. P x \<and> Q x) xs"
  by (auto simp: list_ex_iff filter_empty_conv)

lemma distinct_filter_key:
  "distinct (map f xs) \<Longrightarrow> filter (\<lambda>x. f x = k) xs = [] \<or> (\<exists>u. filter (\<lambda>x. f x = k) xs = [u])"
proof -
  assume "distinct (map f xs)"
  then have "length (filter (\<lambda>x. f x = k) xs) \<le> 1" by (rule distinct_key_filter_le1)
  then show ?thesis
    by (cases "filter (\<lambda>x. f x = k) xs") (auto simp: length_Suc_conv)
qed

lemma login_unknown_email:
  assumes "\<not> fails 0" "filter (\<lambda>u. email u = toLowerCase mail) (users d) = []"
  shows "login fails compare sign d mail pw = Failure 401 (Detail ''Invalid email or password'')"
  using assms by (simp add: login_def)

lemma login_known_email:
  assumes "\<not> fails 0" "filter (\<lambda>u. email u = toLowerCase mail) (users d) = [u]"
    "left_join_university d u = (u, uo) # rest"
  shows "(\<exists>c. login fails compare sign d mail pw = Failure 401 c) \<longleftrightarrow>
           \<not> compare pw (password_hash u) \<or> \<not> is_active u
           \<or> (user_role u \<noteq> superadmin \<and> truthy (university_id u)
               \<and> map_option is_enabled uo = Some False)"
  using assms by (auto simp: login_def)

lemma left_join_university_row:
  assumes unis: "distinct (map uni_id (universities d))"
      and ids: "\<forall>un\<in>set (universities d). uni_id un \<noteq> []"
  shows "\<exists>uo rest. left_join_university d u = (u, uo) # rest
           \<and> ((truthy (university_id u) \<and> map_option is_enabled uo = Some False)
                \<longleftrightarrow> owning_university_disabled d u)"
proof (cases "university_id u")
  case None
  then have "left_join_university d u = [(u, None)]"
    by (simp add: left_join_university_def)
  moreover from None have "\<not> owning_university_disabled d u"
    by (simp add: owning_university_disabled_def list_ex_iff)
  ultimately show ?thesis by simp
next
  case (Some i)
  have eq: "filter (\<lambda>un. university_id u = Some (uni_id un)) (universities d)
              = filter (\<lambda>un. uni_id un = i) (universities d)"
    using Some by (intro filter_cong) auto
  from distinct_filter_key[OF unis, of i]
  show ?thesis
  proof
    assume e: "filter (\<lambda>un. uni_id un = i) (universities d) = []"
    then have "left_join_university d u = [(u, None)]"
      by (simp add: left_join_university_def eq)
    moreover from e have "\<not> owning_university_disabled d u"
      unfolding owning_university_disabled_def using eq by (intro filter_empty_list_ex) simp
    ultimately show ?thesis by simp
  next
    assume "\<exists>un. filter (\<lambda>un. uni_id un = i) (universities d) = [un]"
    then obtain un where un: "filter (\<lambda>un. uni_id un = i) (universities d) = [un]" ..
    then have "un \<in> set (filter (\<lambda>un. uni_id un = i) (universities d))" by simp
    then have mem: "un \<in> set (universities d)" "uni_id un = i" by simp_all
    with ids Some have t: "truthy (university_id u)" by (auto simp: truthy_def)
    from un have j: "left_join_university d u = [(u, Some un)]"
      by (simp add: left_join_university_def eq)
    have "owning_university_disabled d u \<longleftrightarrow> \<not> is_enabled un"
      unfolding owning_university_disabled_def
      by (rule filter_single_list_ex) (simp add: eq un)
    with t j show ?thesis by simp
  qed
qed

lemma login_401_iff:
  assumes wf: "accounts_wellformed d" and store: "\<not> fails 0"
  shows "(\<exists>c. login fails compare sign d mail pw = Failure 401 c)
           \<longleftrightarrow> login_must_reject compare d mail pw"
proof -
  from wf have emails: "distinct (map email (users d))"
    and lower: "\<forall>u\<in>set (users d). toLowerCase (email u) = email u"
    and unis: "distinct (map uni_id (universities d))"
    and ids: "\<forall>un\<in>set (universities d). uni_id un \<noteq> []"
    by (simp_all add: accounts_wellformed_def list_all_iff)
  let ?bad = "\<lambda>u. \<not> compare pw (password_hash u) \<or> \<not> is_active u
                    \<or> (user_role u \<noteq> superadmin \<and> owning_university_disabled d u)"
  have spec: "login_must_reject compare d mail pw \<longleftrightarrow>
      \<not> list_ex (\<lambda>u. email u = toLowerCase mail \<and> True) (users d)
      \<or> list_ex (\<lambda>u. email u = toLowerCase mail \<and> ?bad u) (users d)"
    unfolding login_must_reject_def list_ex_iff using lower by auto
  from distinct_filter_key[OF emails, of "toLowerCase mail"]
  show ?thesis
  proof
    assume e: "filter (\<lambda>u. email u = toLowerCase mail) (users d) = []"
    from filter_empty_list_ex[OF e, of "\<lambda>u. True"] spec
    have "login_must_reject compare d mail pw" by blast
    with login_unknown_email[of fails mail d compare sign pw, OF store e] show ?thesis by simp
  next
    assume "\<exists>u. filter (\<lambda>u. email u = toLowerCase mail) (users d) = [u]"
    then obtain u where u: "filter (\<lambda>u. email u = toLowerCase mail) (users d) = [u]" ..
    from left_join_university_row[OF unis ids, of u] obtain uo rest where
      j: "left_join_university d u = (u, uo) # rest"
      and dis: "(truthy (university_id u) \<and> map_option is_enabled uo = Some False)
                \<longleftrightarrow> owning_university_disabled d u" by blast
    have "login_must_reject compare d mail pw \<longleftrightarrow> ?bad u"
      using spec filter_single_list_ex[OF u, of "\<lambda>u. True"] filter_single_list_ex[OF u, of ?bad]
      by blast
    with login_known_email[of fails mail d u uo rest compare sign pw, OF store u j] dis
    show ?thesis by blast
  qed
qed

text \<open>
  C9: on well-formed account tables, and when the store answers the lookup, login
  answers 401 exactly when the specification's condition holds: the email is unknown,
  or the password is wrong, or the account is deactivated, or the account is not a
  superadmin's and its university is disabled. Under that condition no response of the
  handler, whatever the store does, is a success, so no token is issued.
\<close>

theorem login_unauthorized_iff:
  assumes wf: "accounts_wellformed d" and store: "\<not> fails 0"
  shows "((\<exists>c. login fails compare sign d mail pw = Failure 401 c)
            \<longleftrightarrow> login_must_reject compare d mail pw)
       \<and> (login_must_reject compare d mail pw
            \<longrightarrow> (\<forall>g r. login g compare sign d mail pw \<noteq> Success r))"
proof (intro conjI impI allI)
  show "(\<exists>c. login fails compare sign d mail pw = Failure 401 c)
            \<longleftrightarrow> login_must_reject compare d mail pw"
    using wf store by (rule login_401_iff)
next
  fix g :: "nat \<Rightarrow> bool" and r
  assume rej: "login_must_reject compare d mail pw"
  show "login g compare sign d mail pw \<noteq> Success r"
  proof (cases "g 0")
    case True
    then show ?thesis by (simp add: login_def)
  next
    case False
    with wf have "(\<exists>c. login g compare sign d mail pw = Failure 401 c)
            \<longleftrightarrow> login_must_reject compare d mail pw" by (rule login_401_iff)
    with rej obtain c where "login g compare sign d mail pw = Failure 401 c" by blast
    then show ?thesis by simp
  qed
qed

lemma ex_accounts_wellformed: "accounts_wellformed ex_db_mentors"
  by code_simp

lemma ex_login_dan:
  "login no_faults (\<lambda>pw h. pw = ''secret'') (\<lambda>p. ''token-'' @ jwt_userId p) ex_db_mentors
     ''dan@ox.ac.uk'' ''secret'' = Failure 401 (Detail ''University is currently disabled'')"
  by code_simp

lemma ex_login_ann:
  "login no_faults (\<lambda>pw h. pw = ''secret'') (\<lambda>p. ''token-'' @ jwt_userId p) ex_db_mentors
     ''Ann@MIT.edu'' ''secret''
   = Success \<lparr>access_token = ''token-a1'', login_user_id = ''a1'',
       university_branding = Some \<lparr>uni_id = ''mit'', uni_name = ''MIT'', is_enabled = True\<rparr>,
       all_universities = None\<rparr>"
  by code_simp

theorem login_unauthorized_iff_witness:
  "accounts_wellformed ex_db_mentors \<and> \<not> no_faults 0
   \<and> login no_faults (\<lambda>pw h. pw = ''secret'') (\<lambda>p. ''token-'' @ jwt_userId p) ex_db_mentors
        ''dan@ox.ac.uk'' ''secret'' = Failure 401 (Detail ''University is currently disabled'')
   \<and> login_must_reject (\<lambda>pw h. pw = ''secret'') ex_db_mentors ''dan@ox.ac.uk'' ''secret''
   \<and> login no_faults (\<lambda>pw h. pw = ''secret'') (\<lambda>p. ''token-'' @ jwt_userId p) ex_db_mentors
        ''Ann@MIT.edu'' ''secret''
      = Success \<lparr>access_token = ''token-a1'', login_user_id = ''a1'',
          university_branding = Some \<lparr>uni_id = ''mit'', uni_name = ''MIT'', is_enabled = True\<rparr>,
          all_universities = None\<rparr>
   \<and> \<not> login_must_reject (\<lambda>pw h. pw = ''secret'') ex_db_mentors ''Ann@MIT.edu'' ''secret''"
proof -
  have store: "\<not> no_faults 0" by (simp add: no_faults_def)
  note dan = login_unauthorized_iff[of ex_db_mentors no_faults "\<lambda>pw h. pw = ''secret''"
      "\<lambda>p. ''token-'' @ jwt_userId p" "''dan@ox.ac.uk''" "''secret''",
      OF ex_accounts_wellformed store]
  note ann = login_unauthorized_iff[of ex_db_mentors no_faults "\<lambda>pw h. pw = ''secret''"
      "\<lambda>p. ''token-'' @ jwt_userId p" "''Ann@MIT.edu''" "''secret''",
      OF ex_accounts_wellformed store]
  from dan ex_login_dan
  have r1: "login_must_reject (\<lambda>pw h. pw = ''secret'') ex_db_mentors ''dan@ox.ac.uk'' ''secret''"
    by blast
  from ann ex_login_ann
  have r2: "\<not> login_must_reject (\<lambda>pw h. pw = ''secret'') ex_db_mentors ''Ann@MIT.edu'' ''secret''"
    by (metis reply.distinct(1))
  from ex_accounts_wellformed store ex_login_dan r1 ex_login_ann r2 show ?thesis
    by (intro conjI)
qed

end
